theory Spec2Isabelle
  imports Complex_Main "HOL-Library.Log_Nat"
begin

section \<open>JavaScript numbers\<close>

text \<open>
  Every number of the program is a JavaScript Number, an IEEE 754 binary64 value. An
  arithmetic operation of the language computes the exact result and rounds it. The
  model keeps the two steps apart: the finite values are rationals, and every function
  that computes takes the rounding \<open>r\<close> applied after each operation.

  \<^item> \<open>exact\<close> rounds nothing: the arithmetic of the specification's formulas.
  \<^item> \<open>binary64\<close> rounds to the nearest value with a 53 bit significand, ties to the even
    significand, with gradual underflow below \<open>2^-1022\<close>: the arithmetic of the runtime.
    Overflow to \<open>Infinity\<close> (results of magnitude \<open>2^1024\<close> and above) is outside the model,
    and so is the sign of zero.
\<close>

type_synonym rounding = "rat \<Rightarrow> rat"

definition exact :: rounding where
  "exact x = x"

definition pow2 :: "int \<Rightarrow> rat" where
  "pow2 e = (if 0 \<le> e then 2 ^ nat e else 1 / 2 ^ nat (- e))"

text \<open>\<open>ilog2 x\<close> is the binary exponent of a positive \<open>x\<close>: \<open>2^(ilog2 x) \<le> x < 2^(ilog2 x + 1)\<close>.\<close>

definition ilog2 :: "rat \<Rightarrow> int" where
  "ilog2 x =
     (if 1 \<le> x then bitlen \<lfloor>x\<rfloor> - 1
      else (let k = bitlen \<lfloor>1 / x\<rfloor>
            in if x = pow2 (1 - k) then 1 - k else - k))"

definition round_half_even :: "rat \<Rightarrow> int" where
  "round_half_even m =
     (let f = \<lfloor>m\<rfloor>; d = m - of_int f
      in if d < 1 / 2 then f else if 1 / 2 < d then f + 1 else if even f then f else f + 1)"

definition binary64 :: rounding where
  "binary64 x =
     (if x = 0 then 0
      else (let e = max (ilog2 \<bar>x\<bar> - 52) (- 1074)
            in of_int (round_half_even (x / pow2 e)) * pow2 e))"

text \<open>
  Where the program can divide by zero the special values matter, and a number is a
  \<open>jsnum\<close>. Division, multiplication, \<open>Math.floor\<close> and \<open><\<close> follow IEEE 754 on them.
\<close>

datatype jsnum = NaN | PosInf | NegInf | Num rat

fun js_div :: "rounding \<Rightarrow> jsnum \<Rightarrow> jsnum \<Rightarrow> jsnum" where
  "js_div r (Num a) (Num b) =
     (if b = 0 then (if a = 0 then NaN else if 0 < a then PosInf else NegInf)
      else Num (r (a / b)))"
| "js_div r (Num a) PosInf = Num 0"
| "js_div r (Num a) NegInf = Num 0"
| "js_div r PosInf (Num b) = (if 0 \<le> b then PosInf else NegInf)"
| "js_div r NegInf (Num b) = (if 0 \<le> b then NegInf else PosInf)"
| "js_div r _ _ = NaN"

fun js_mul :: "rounding \<Rightarrow> jsnum \<Rightarrow> jsnum \<Rightarrow> jsnum" where
  "js_mul r (Num a) (Num b) = Num (r (a * b))"
| "js_mul r (Num a) PosInf = (if a = 0 then NaN else if 0 < a then PosInf else NegInf)"
| "js_mul r (Num a) NegInf = (if a = 0 then NaN else if 0 < a then NegInf else PosInf)"
| "js_mul r PosInf (Num b) = (if b = 0 then NaN else if 0 < b then PosInf else NegInf)"
| "js_mul r NegInf (Num b) = (if b = 0 then NaN else if 0 < b then NegInf else PosInf)"
| "js_mul r PosInf PosInf = PosInf"
| "js_mul r PosInf NegInf = NegInf"
| "js_mul r NegInf PosInf = NegInf"
| "js_mul r NegInf NegInf = PosInf"
| "js_mul r _ _ = NaN"

fun js_floor :: "jsnum \<Rightarrow> jsnum" where
  "js_floor (Num a) = Num (of_int \<lfloor>a\<rfloor>)"
| "js_floor x = x"

fun js_less :: "jsnum \<Rightarrow> jsnum \<Rightarrow> bool" where
  "js_less (Num a) (Num b) = (a < b)"
| "js_less NaN _ = False"
| "js_less _ NaN = False"
| "js_less (Num a) PosInf = True"
| "js_less (Num a) NegInf = False"
| "js_less NegInf NegInf = False"
| "js_less NegInf _ = True"
| "js_less PosInf _ = False"

text \<open>
  \<open>Number.prototype.toFixed(f)\<close> on a finite number \<open>x\<close> returns the decimal string of
  \<open>n / 10^f\<close> for the integer \<open>n\<close> closest to \<open>x * 10^f\<close>, the larger \<open>n\<close> on a tie,
  computed on the magnitude with the sign put back; from \<open>10^21\<close> on it returns the
  digits of \<open>x\<close> itself. The model returns the number which that string denotes.
\<close>

definition toFixed_val :: "nat \<Rightarrow> rat \<Rightarrow> rat" where
  "toFixed_val f x =
     (if 10 ^ 21 \<le> \<bar>x\<bar> then x
      else if x < 0 then - (of_int \<lfloor>- x * 10 ^ f + 1 / 2\<rfloor> / 10 ^ f)
      else of_int \<lfloor>x * 10 ^ f + 1 / 2\<rfloor> / 10 ^ f)"

section \<open>Cost-basis engine\<close>

text \<open>
  A trade as the exchange returns it; \<open>qty\<close> and \<open>price\<close> are the values of
  \<open>parseFloat(t.qty)\<close> and \<open>parseFloat(t.price)\<close>, finite numbers for the decimal
  strings of the exchange.
\<close>

record trade =
  qty :: rat
  price :: rat
  isBuyer :: bool

subsection \<open>The pass of \<open>GET /positions\<close>\<close>

text \<open>
  \<^verbatim>\<open>
  let openQty=0, openCost=0;
  for(const t of trades){
      const qty=parseFloat(t.qty), p=parseFloat(t.price), fee=qty*p*FEE_RATE;
      if(t.isBuyer){ openQty+=qty; openCost+=qty*p+fee; }
      else if(openQty>0){ const avg=openCost/openQty; openQty-=qty; openCost-=qty*avg;
                          if(openQty<0) openQty=0; if(openCost<0) openCost=0; }
  }
  \<close>
\<close>

definition positions_step :: "rounding \<Rightarrow> rat \<Rightarrow> rat \<times> rat \<Rightarrow> trade \<Rightarrow> rat \<times> rat" where
  "positions_step r FEE_RATE s t =
     (let openQty = fst s; openCost = snd s;
          q = qty t; p = price t; fee = r (r (q * p) * FEE_RATE)
      in if isBuyer t then (r (openQty + q), r (openCost + r (r (q * p) + fee)))
         else if 0 < openQty then
           (let avg = r (openCost / openQty);
                openQty' = r (openQty - q);
                openCost' = r (openCost - r (q * avg))
            in (if openQty' < 0 then 0 else openQty', if openCost' < 0 then 0 else openCost'))
         else (openQty, openCost))"

fun positions_loop :: "rounding \<Rightarrow> rat \<Rightarrow> rat \<times> rat \<Rightarrow> trade list \<Rightarrow> rat \<times> rat" where
  "positions_loop r FEE_RATE s [] = s"
| "positions_loop r FEE_RATE s (t # ts) = positions_loop r FEE_RATE (positions_step r FEE_RATE s t) ts"

definition positions_pass :: "rounding \<Rightarrow> rat \<Rightarrow> trade list \<Rightarrow> rat \<times> rat" where
  "positions_pass r FEE_RATE trades = positions_loop r FEE_RATE (0, 0) trades"

text \<open>
  The rest of the loop body, for the resolved symbol, its trades and its last price:
  \<^verbatim>\<open>
  if(openQty<=0) continue;
  const value=openQty*price;
  if(value<10) continue;
  const breakEven=openCost/openQty;
  const pnl=(price-breakEven)*openQty;
  positions.push({ symbol, positionAmt: openQty.toFixed(8), breakEven: breakEven.toFixed(8),
      entryPrice: breakEven.toFixed(8), currentPrice: price.toFixed(8),
      marketValue: value.toFixed(2), unrealizedPL: pnl.toFixed(2) });
  \<close>
  \<open>position_values\<close> holds the locals \<open>openQty\<close>, \<open>breakEven\<close>, \<open>value\<close> and \<open>pnl\<close> of an
  iteration that reaches the push, \<open>position_entry\<close> the pushed object.
\<close>

record position_values =
  pv_openQty :: rat
  pv_breakEven :: rat
  pv_value :: rat
  pv_pnl :: rat

definition position_values :: "rounding \<Rightarrow> rat \<Rightarrow> trade list \<Rightarrow> rat \<Rightarrow> position_values option" where
  "position_values r FEE_RATE trades currentPrice =
     (let s = positions_pass r FEE_RATE trades; openQty = fst s; openCost = snd s
      in if openQty \<le> 0 then None
         else (let v = r (openQty * currentPrice)
               in if v < 10 then None
                  else (let breakEven = r (openCost / openQty);
                            pnl = r (r (currentPrice - breakEven) * openQty)
                        in Some \<lparr>pv_openQty = openQty, pv_breakEven = breakEven,
                                 pv_value = v, pv_pnl = pnl\<rparr>)))"

record position =
  symbol :: string
  positionAmt :: rat
  breakEven :: rat
  entryPrice :: rat
  currentPrice :: rat
  marketValue :: rat
  unrealizedPL :: rat

definition position_entry :: "rounding \<Rightarrow> rat \<Rightarrow> string \<Rightarrow> trade list \<Rightarrow> rat \<Rightarrow> position option" where
  "position_entry r FEE_RATE sy trades p =
     map_option
       (\<lambda>v. \<lparr>symbol = sy, positionAmt = toFixed_val 8 (pv_openQty v),
             breakEven = toFixed_val 8 (pv_breakEven v),
             entryPrice = toFixed_val 8 (pv_breakEven v),
             currentPrice = toFixed_val 8 p,
             marketValue = toFixed_val 2 (pv_value v),
             unrealizedPL = toFixed_val 2 (pv_pnl v)\<rparr>)
       (position_values r FEE_RATE trades p)"

subsection \<open>The pass of \<open>GET /breakeven/:symbol\<close>, cost-basis version\<close>

text \<open>
  \<^verbatim>\<open>
  // BREAK-EVEN (CONSISTENT WITH POSITIONS)
  let qty=0, cost=0;
  for(const t of trades){
      const q=parseFloat(t.qty), p=parseFloat(t.price), fee=q*p*FEE_RATE;
      if(t.isBuyer){ qty+=q; cost+=q*p+fee; }
      else if(qty>0){ const avg=cost/qty; qty-=q; cost-=q*avg; }
  }
  const be = qty>0? cost/qty : 0;
  res.json({ breakEven: be.toFixed(8), averagePrice: be.toFixed(8), totalQuantity: qty.toFixed(8) });
  \<close>
\<close>

definition breakeven_step :: "rounding \<Rightarrow> rat \<Rightarrow> rat \<times> rat \<Rightarrow> trade \<Rightarrow> rat \<times> rat" where
  "breakeven_step r FEE_RATE s t =
     (let tq = fst s; cost = snd s;
          q = qty t; p = price t; fee = r (r (q * p) * FEE_RATE)
      in if isBuyer t then (r (tq + q), r (cost + r (r (q * p) + fee)))
         else if 0 < tq then
           (let avg = r (cost / tq) in (r (tq - q), r (cost - r (q * avg))))
         else (tq, cost))"

fun breakeven_loop :: "rounding \<Rightarrow> rat \<Rightarrow> rat \<times> rat \<Rightarrow> trade list \<Rightarrow> rat \<times> rat" where
  "breakeven_loop r FEE_RATE s [] = s"
| "breakeven_loop r FEE_RATE s (t # ts) = breakeven_loop r FEE_RATE (breakeven_step r FEE_RATE s t) ts"

definition breakeven_pass :: "rounding \<Rightarrow> rat \<Rightarrow> trade list \<Rightarrow> rat \<times> rat" where
  "breakeven_pass r FEE_RATE trades = breakeven_loop r FEE_RATE (0, 0) trades"

record breakeven_values =
  bv_be :: rat
  bv_qty :: rat

definition breakeven_values :: "rounding \<Rightarrow> rat \<Rightarrow> trade list \<Rightarrow> breakeven_values" where
  "breakeven_values r FEE_RATE trades =
     (let s = breakeven_pass r FEE_RATE trades; tq = fst s; cost = snd s;
          be = (if 0 < tq then r (cost / tq) else 0)
      in \<lparr>bv_be = be, bv_qty = tq\<rparr>)"

record breakeven_response =
  br_breakEven :: rat
  br_averagePrice :: rat
  br_totalQuantity :: rat

definition breakeven_endpoint :: "rounding \<Rightarrow> rat \<Rightarrow> trade list \<Rightarrow> breakeven_response" where
  "breakeven_endpoint r FEE_RATE trades =
     (let v = breakeven_values r FEE_RATE trades
      in \<lparr>br_breakEven = toFixed_val 8 (bv_be v), br_averagePrice = toFixed_val 8 (bv_be v),
          br_totalQuantity = toFixed_val 8 (bv_qty v)\<rparr>)"


subsection \<open>\<open>GET /breakeven/:symbol\<close>, buys-only version\<close>

text \<open>
  The earlier server keeps the buys of the trade history and averages their prices:
  \<^verbatim>\<open>
  const trades = tradesResp.data.filter(t => t.isBuyer); // only buys
  if (!trades.length) return res.json({ averagePrice: 0, breakEven: 0, totalQuantity: 0, totalSpent: 0 });
  let totalQty = 0, totalSpent = 0;
  trades.forEach(t => {
      const qty = parseFloat(t.qty);
      const price = parseFloat(t.price);
      totalQty += qty;
      totalSpent += qty * price;
  });
  const breakEven = totalSpent / totalQty;
  res.json({ averagePrice: breakEven.toFixed(8), breakEven: breakEven.toFixed(8),
             totalQuantity: totalQty.toFixed(8), totalSpent: totalSpent.toFixed(2) });
  \<close>
  That file has no fee rate. The division is not guarded, so its result is a \<open>jsnum\<close>.
\<close>

fun buys_loop :: "rounding \<Rightarrow> rat \<times> rat \<Rightarrow> trade list \<Rightarrow> rat \<times> rat" where
  "buys_loop r s [] = s"
| "buys_loop r s (t # ts) =
     buys_loop r (r (fst s + qty t), r (snd s + r (qty t * price t))) ts"

record buys_values =
  bb_breakEven :: jsnum
  bb_totalQty :: rat
  bb_totalSpent :: rat

definition breakeven_buys_only :: "rounding \<Rightarrow> trade list \<Rightarrow> buys_values" where
  "breakeven_buys_only r tradesResp =
     (let trades = filter isBuyer tradesResp
      in if trades = [] then \<lparr>bb_breakEven = Num 0, bb_totalQty = 0, bb_totalSpent = 0\<rparr>
         else (let s = buys_loop r (0, 0) trades; totalQty = fst s; totalSpent = snd s
               in \<lparr>bb_breakEven = js_div r (Num totalSpent) (Num totalQty),
                   bb_totalQty = totalQty, bb_totalSpent = totalSpent\<rparr>))"

fun js_toFixed_val :: "nat \<Rightarrow> jsnum \<Rightarrow> jsnum" where
  "js_toFixed_val f (Num a) = Num (toFixed_val f a)"
| "js_toFixed_val f x = x"

record buys_response =
  bo_averagePrice :: jsnum
  bo_breakEven :: jsnum
  bo_totalQuantity :: rat
  bo_totalSpent :: rat

definition breakeven_buys_only_endpoint :: "rounding \<Rightarrow> trade list \<Rightarrow> buys_response" where
  "breakeven_buys_only_endpoint r tradesResp =
     (let v = breakeven_buys_only r tradesResp
      in \<lparr>bo_averagePrice = js_toFixed_val 8 (bb_breakEven v),
          bo_breakEven = js_toFixed_val 8 (bb_breakEven v),
          bo_totalQuantity = toFixed_val 8 (bb_totalQty v),
          bo_totalSpent = toFixed_val 2 (bb_totalSpent v)\<rparr>)"

subsection \<open>The quantities the specification names\<close>



section \<open>Numeric adjustment module\<close>

subsection \<open>\<open>Number.prototype.toString\<close>\<close>

text \<open>
  \<open>countDecimals\<close> reads the digits of \<open>num.toString()\<close>. The language defines that
  string from integers \<open>n\<close>, \<open>k\<close> and \<open>s\<close> with \<open>k \<ge> 1\<close>, \<open>10^(k-1) \<le> s < 10^k\<close>, the
  number equal to \<open>s * 10^(n-k)\<close> and \<open>k\<close> as small as possible. A number handed to
  \<open>countDecimals\<close> is therefore given in that form: \<open>PrNum neg ds n\<close> is the number of
  sign \<open>neg\<close> whose \<open>s\<close> has the \<open>k\<close> decimal digits \<open>ds\<close>, most significant first.
  The exchange's \<open>stepSize\<close> and \<open>tickSize\<close> are such numbers, read from decimal strings.
\<close>

datatype jsprint = PrNaN | PrInf bool | PrZero | PrNum bool "nat list" int

definition canonical :: "nat list \<Rightarrow> bool" where
  "canonical ds \<longleftrightarrow> ds \<noteq> [] \<and> hd ds \<noteq> 0 \<and> last ds \<noteq> 0 \<and> list_all (\<lambda>d. d < 10) ds"

fun digits_val :: "nat list \<Rightarrow> nat" where
  "digits_val [] = 0"
| "digits_val (d # ds) = d * 10 ^ length ds + digits_val ds"

definition pow10 :: "int \<Rightarrow> rat" where
  "pow10 e = (if 0 \<le> e then 10 ^ nat e else 1 / 10 ^ nat (- e))"

definition dec_val :: "nat list \<Rightarrow> int \<Rightarrow> rat" where
  "dec_val ds n = of_nat (digits_val ds) * pow10 (n - int (length ds))"

text \<open>The number as a value of the arithmetic: the decimal rounded to a Number.\<close>

fun num_of :: "rounding \<Rightarrow> jsprint \<Rightarrow> jsnum" where
  "num_of r PrNaN = NaN"
| "num_of r (PrInf neg) = (if neg then NegInf else PosInf)"
| "num_of r PrZero = Num 0"
| "num_of r (PrNum neg ds n) = Num (r (if neg then - dec_val ds n else dec_val ds n))"

definition digit_char :: "nat \<Rightarrow> char" where
  "digit_char d = char_of (48 + d)"

definition digs :: "nat list \<Rightarrow> string" where
  "digs ds = map digit_char ds"

fun show_nat :: "nat \<Rightarrow> string" where
  "show_nat n = (if n < 10 then [digit_char n] else show_nat (n div 10) @ [digit_char (n mod 10)])"

declare show_nat.simps [simp del]

text \<open>The two notations of a positive number: plain digits, and mantissa with exponent.\<close>

definition plain_digits :: "nat list \<Rightarrow> int \<Rightarrow> string" where
  "plain_digits ds n =
     (let k = int (length ds)
      in if k \<le> n then digs ds @ replicate (nat (n - k)) (CHR ''0'')
         else if 0 < n then digs (take (nat n) ds) @ ''.'' @ digs (drop (nat n) ds)
         else ''0.'' @ replicate (nat (- n)) (CHR ''0'') @ digs ds)"

definition sci_digits :: "nat list \<Rightarrow> int \<Rightarrow> string" where
  "sci_digits ds n =
     (let e = n - 1;
          ex = (if e < 0 then ''-'' else ''+'') @ show_nat (nat \<bar>e\<bar>)
      in if length ds = 1 then digs ds @ ''e'' @ ex
         else digs (take 1 ds) @ ''.'' @ digs (drop 1 ds) @ ''e'' @ ex)"

fun toString :: "jsprint \<Rightarrow> string" where
  "toString PrNaN = ''NaN''"
| "toString PrZero = ''0''"
| "toString (PrInf neg) = (if neg then ''-Infinity'' else ''Infinity'')"
| "toString (PrNum neg ds n) =
     (if neg then ''-'' else '''') @
     (if - 6 < n \<and> n \<le> 21 then plain_digits ds n else sci_digits ds n)"

subsection \<open>String helpers of the runtime\<close>

text \<open>\<open>String.prototype.split\<close> on a separator of one character: always at least one piece.\<close>

fun split_on :: "(char \<Rightarrow> bool) \<Rightarrow> string \<Rightarrow> string list" where
  "split_on sep [] = [[]]"
| "split_on sep (c # cs) =
     (if sep c then [] # split_on sep cs
      else (case split_on sep cs of [] \<Rightarrow> [[c]] | x # xs \<Rightarrow> (c # x) # xs))"

text \<open>The element at index 1 of an array of strings, \<open>undefined\<close> when there is none.\<close>

fun index1 :: "string list \<Rightarrow> string option" where
  "index1 (x # y # ys) = Some y"
| "index1 xs = None"

definition is_e :: "char \<Rightarrow> bool" where
  "is_e c \<longleftrightarrow> c = CHR ''e'' \<or> c = CHR ''E''"

definition is_dot :: "char \<Rightarrow> bool" where
  "is_dot c \<longleftrightarrow> c = CHR ''.''"

definition is_digit :: "char \<Rightarrow> bool" where
  "is_digit c \<longleftrightarrow> 48 \<le> (of_char c :: nat) \<and> (of_char c :: nat) \<le> 57"

definition is_space :: "char \<Rightarrow> bool" where
  "is_space c \<longleftrightarrow> (of_char c :: nat) \<in> {9, 10, 11, 12, 13, 32}"

fun read_nat :: "nat \<Rightarrow> string \<Rightarrow> nat" where
  "read_nat acc [] = acc"
| "read_nat acc (c # cs) = read_nat (acc * 10 + (of_char c - 48)) cs"

text \<open>
  \<open>parseInt(str, 10)\<close>: white space, an optional sign, then the longest run of digits;
  \<open>NaN\<close> without a digit, and for \<open>undefined\<close>.
\<close>

definition parseInt :: "string option \<Rightarrow> jsnum" where
  "parseInt str =
     (case str of None \<Rightarrow> NaN
      | Some s \<Rightarrow>
         (let s1 = dropWhile is_space s;
              neg = (s1 \<noteq> [] \<and> hd s1 = CHR ''-'');
              s2 = (if s1 \<noteq> [] \<and> (hd s1 = CHR ''-'' \<or> hd s1 = CHR ''+'') then tl s1 else s1);
              ds = takeWhile is_digit s2
          in if ds = [] then NaN
             else Num (of_nat (read_nat 0 ds) * (if neg then - 1 else 1))))"

subsection \<open>\<open>countDecimals\<close>\<close>

text \<open>
  \<^verbatim>\<open>
  function countDecimals(num) {
      const s = num.toString();
      if (s.includes("e") || s.includes("E")) {
          const [base, exp] = s.split(/e/i);
          const e = parseInt(exp, 10);
          const dec = (base.split('.')[1] || '').length;
          return Math.max(0, dec - e);
      }
      if (s.indexOf('.') >= 0) return s.split('.')[1].length;
      return 0;
  }
  \<close>
  \<open>Math.max(0, dec - e)\<close> is \<open>NaN\<close> when \<open>e\<close> is, and \<open>e\<close> is an integer otherwise.
\<close>

definition length_or_empty :: "string option \<Rightarrow> nat" where
  "length_or_empty x = (case x of None \<Rightarrow> 0 | Some y \<Rightarrow> length y)"

definition countDecimals_str :: "string \<Rightarrow> jsnum" where
  "countDecimals_str s =
     (if list_ex is_e s then
        (let parts = split_on is_e s;
             base = hd parts; exp = index1 parts;
             dec = length_or_empty (index1 (split_on is_dot base))
         in case parseInt exp of
              Num e \<Rightarrow> Num (max 0 (of_nat dec - e))
            | _ \<Rightarrow> NaN)
      else if list_ex is_dot s then Num (of_nat (length_or_empty (index1 (split_on is_dot s))))
      else Num 0)"

definition countDecimals :: "jsprint \<Rightarrow> jsnum" where
  "countDecimals num = countDecimals_str (toString num)"

subsection \<open>\<open>Number.prototype.toFixed\<close> with its argument check\<close>

datatype js_error = RangeError | TypeError

text \<open>
  \<open>x.toFixed(fractionDigits)\<close>: the argument is truncated to an integer (\<open>NaN\<close> counts as
  0); outside 0 to 100 the call throws \<open>RangeError\<close>; a \<open>this\<close> value that is not finite
  is printed as it is.
\<close>

definition toFixed :: "jsnum \<Rightarrow> jsnum \<Rightarrow> js_error + jsnum" where
  "toFixed fractionDigits x =
     (case fractionDigits of
        PosInf \<Rightarrow> Inl RangeError
      | NegInf \<Rightarrow> Inl RangeError
      | NaN \<Rightarrow> (case x of Num a \<Rightarrow> Inr (Num (toFixed_val 0 a)) | _ \<Rightarrow> Inr x)
      | Num q \<Rightarrow>
          (let f = (if 0 \<le> q then \<lfloor>q\<rfloor> else \<lceil>q\<rceil>)
           in if f < 0 \<or> 100 < f then Inl RangeError
              else (case x of Num a \<Rightarrow> Inr (Num (toFixed_val (nat f) a)) | _ \<Rightarrow> Inr x)))"

subsection \<open>\<open>roundPrice\<close>, \<open>adjustQtyForLotSize\<close>, \<open>adjustToStepSize\<close>\<close>

text \<open>
  \<^verbatim>\<open>
  function roundPrice(price, tickSize) {
      const decimals = countDecimals(tickSize);
      return (Math.floor(price / tickSize) * tickSize).toFixed(decimals);
  }
  function adjustQtyForLotSize(qty, stepSize, minQty) {
      let n = Math.floor(qty / stepSize) * stepSize;
      if (n < minQty) n = minQty;
      const decimals = countDecimals(stepSize);
      return n.toFixed(decimals);
  }
  \<close>
  The result is the number that the returned string denotes, or the error thrown.
\<close>

definition roundPrice :: "rounding \<Rightarrow> jsnum \<Rightarrow> jsprint \<Rightarrow> js_error + jsnum" where
  "roundPrice r p tickSize =
     (let decimals = countDecimals tickSize
      in toFixed decimals (js_mul r (js_floor (js_div r p (num_of r tickSize))) (num_of r tickSize)))"

definition adjustQtyForLotSize :: "rounding \<Rightarrow> jsnum \<Rightarrow> jsprint \<Rightarrow> jsnum \<Rightarrow> js_error + jsnum" where
  "adjustQtyForLotSize r q stepSize minQty =
     (let n = js_mul r (js_floor (js_div r q (num_of r stepSize))) (num_of r stepSize);
          n = (if js_less n minQty then minQty else n);
          decimals = countDecimals stepSize
      in toFixed decimals n)"

text \<open>
  The later server has its own helper, with the precision taken from a logarithm:
  \<^verbatim>\<open>
  function adjustToStepSize(qty, stepSize) {
      const precision = Math.round(Math.log10(1 / stepSize));
      return (Math.floor(qty / stepSize) * stepSize).toFixed(precision);
  }
  \<close>
  \<open>Math.log10\<close> is the real logarithm here, \<open>Math.round\<close> rounds half up.
\<close>

fun round_log10 :: "jsnum \<Rightarrow> jsnum" where
  "round_log10 NaN = NaN"
| "round_log10 PosInf = PosInf"
| "round_log10 NegInf = NaN"
| "round_log10 (Num a) =
     (if a < 0 then NaN else if a = 0 then NegInf
      else Num (of_int \<lfloor>log 10 (real_of_rat a) + 1 / 2\<rfloor>))"

definition adjustToStepSize :: "rounding \<Rightarrow> jsnum \<Rightarrow> jsnum \<Rightarrow> js_error + jsnum" where
  "adjustToStepSize r q stepSize =
     (let precision = round_log10 (js_div r (Num 1) stepSize)
      in toFixed precision (js_mul r (js_floor (js_div r q stepSize)) stepSize))"

subsection \<open>The number of fractional digits, as the specification means it\<close>

text \<open>
  \<open>d\<close> is the number of significant fractional digits of \<open>x\<close> when \<open>d\<close> decimals write
  \<open>x\<close> exactly and no fewer do.
\<close>

definition fraction_digits :: "rat \<Rightarrow> nat \<Rightarrow> bool" where
  "fraction_digits x d \<longleftrightarrow> x * 10 ^ d \<in> \<int> \<and> (\<forall>d'<d. x * 10 ^ d' \<notin> \<int>)"

section \<open>Signing module\<close>

text \<open>
  \<^verbatim>\<open>
  const API_SECRET = process.env.BINANCE_API_SECRET;
  function signQuery(params) {
      const qs = new URLSearchParams(params).toString();
      const sig = crypto.createHmac("sha256", API_SECRET).update(qs).digest("hex");
      return qs + "&signature=" + sig;
  }
  \<close>
  \<open>API_SECRET\<close> is \<open>undefined\<close> (\<open>None\<close>) when the environment variable is not set, and
  the empty string when it is set to nothing. The hash itself is kept symbolic:
  \<open>HmacSha256Hex key msg\<close> stands for the 64 hexadecimal characters of the HMAC-SHA256
  of \<open>msg\<close> under \<open>key\<close>, and \<open>SignedQuery qs sig\<close> for the string
  \<open>qs + "&signature=" + sig\<close>. \<open>crypto.createHmac\<close> throws \<open>TypeError\<close> on a key that
  is \<open>undefined\<close> and accepts every string, the empty one included.
\<close>

datatype hmac_hex = HmacSha256Hex string string

datatype signed_query = SignedQuery string hmac_hex

definition createHmac_digest :: "string option \<Rightarrow> string \<Rightarrow> js_error + hmac_hex" where
  "createHmac_digest key msg =
     (case key of None \<Rightarrow> Inl TypeError | Some k \<Rightarrow> Inr (HmacSha256Hex k msg))"

text \<open>
  \<open>URLSearchParams.prototype.toString\<close>: the pairs in order, names and values
  percent-encoded as \<open>application/x-www-form-urlencoded\<close>, joined by \<open>=\<close> and \<open>&\<close>.
\<close>

definition hex_digit :: "nat \<Rightarrow> char" where
  "hex_digit n = ''0123456789ABCDEF'' ! (n mod 16)"

definition unreserved :: "nat \<Rightarrow> bool" where
  "unreserved n \<longleftrightarrow>
     (48 \<le> n \<and> n \<le> 57) \<or> (65 \<le> n \<and> n \<le> 90) \<or> (97 \<le> n \<and> n \<le> 122) \<or>
     n = 42 \<or> n = 45 \<or> n = 46 \<or> n = 95"

definition urlencode_char :: "char \<Rightarrow> string" where
  "urlencode_char c =
     (let n = (of_char c :: nat)
      in if unreserved n then [c]
         else if n = 32 then ''+''
         else [CHR ''%'', hex_digit (n div 16), hex_digit (n mod 16)])"

definition urlencode :: "string \<Rightarrow> string" where
  "urlencode s = concat (map urlencode_char s)"

fun serialize :: "(string \<times> string) list \<Rightarrow> string" where
  "serialize [] = []"
| "serialize [(k, v)] = urlencode k @ ''='' @ urlencode v"
| "serialize ((k, v) # ps) = urlencode k @ ''='' @ urlencode v @ ''&'' @ serialize ps"

definition signQuery :: "string option \<Rightarrow> (string \<times> string) list \<Rightarrow> js_error + signed_query" where
  "signQuery API_SECRET params =
     (let qs = serialize params
      in case createHmac_digest API_SECRET qs of
           Inl err \<Rightarrow> Inl err
         | Inr sig \<Rightarrow> Inr (SignedQuery qs sig))"

section \<open>Cache layer\<close>

text \<open>
  \<^verbatim>\<open>
  const cache = { account: { data: null, ts: 0 }, trades: {}, prices: {} };
  const ACCOUNT_TTL = 5000;  const TRADES_TTL = 60000;  const PRICE_TTL = 5000;
  const exchangeInfoCache = { data: null, ts: 0 };
  const EXCHANGE_INFO_TTL = 60 * 60 * 1000;
  \<close>
  An entry is a value with the time it was stored, in milliseconds. A missing key of
  \<open>trades\<close> and \<open>prices\<close> is \<open>None\<close>. The account snapshot and the exchange information
  are tested for truth (\<open>cache.account.data && ...\<close>): their data is \<open>Some d\<close> for a
  payload \<open>d\<close> that counts as true, as every object does, and \<open>None\<close> for \<open>null\<close> and any
  other value that counts as false. The state also records every request sent to the
  exchange, in order, so that the invocations of a fetcher can be counted.
\<close>

record 'a cached =
  c_data :: 'a
  c_ts :: int

datatype request = AccountRequest | MyTradesRequest string | TickerPriceRequest string | ExchangeInfoRequest

record ('acct, 'trades, 'info) state =
  cache_account :: "'acct option cached"
  cache_trades :: "string \<rightharpoonup> 'trades cached"
  cache_prices :: "string \<rightharpoonup> jsnum cached"
  exchangeInfoCache :: "'info option cached"
  fetched :: "request list"

definition initial_state :: "('acct, 'trades, 'info) state" where
  "initial_state =
     \<lparr>cache_account = \<lparr>c_data = None, c_ts = 0\<rparr>, cache_trades = Map.empty,
      cache_prices = Map.empty, exchangeInfoCache = \<lparr>c_data = None, c_ts = 0\<rparr>, fetched = []\<rparr>"

definition ACCOUNT_TTL :: int where "ACCOUNT_TTL = 5000"
definition TRADES_TTL :: int where "TRADES_TTL = 60000"
definition PRICE_TTL :: int where "PRICE_TTL = 5000"
definition EXCHANGE_INFO_TTL :: int where "EXCHANGE_INFO_TTL = 60 * 60 * 1000"

text \<open>
  Each helper reads the clock for the freshness test (\<open>now\<close>); on a miss it sends its
  request, whose outcome is \<open>resp\<close> (the error thrown, or the payload), and reads the
  clock again for the time stamp of the entry (\<open>stored_at\<close>). A failed request throws
  before anything is stored.
  \<^verbatim>\<open>
  async function getAccountCached() {
      if (cache.account.data && Date.now() - cache.account.ts < ACCOUNT_TTL) return cache.account.data;
      const qs = signQuery({ timestamp: Date.now() });
      const r = await axios.get(`${BASE}/api/v3/account?${qs}`, { headers: { "X-MBX-APIKEY": API_KEY } });
      cache.account = { data: r.data, ts: Date.now() };
      return r.data;
  }
  \<close>
\<close>

definition getAccountCached ::
  "('acct, 'trades, 'info) state \<Rightarrow> int \<Rightarrow> 'e + 'acct option \<Rightarrow> int \<Rightarrow>
     ('e + 'acct option) \<times> ('acct, 'trades, 'info) state" where
  "getAccountCached st now resp stored_at =
     (let hit = (case c_data (cache_account st) of
                   None \<Rightarrow> None
                 | Some d \<Rightarrow> if now - c_ts (cache_account st) < ACCOUNT_TTL then Some d else None)
      in case hit of
           Some d \<Rightarrow> (Inr (Some d), st)
         | None \<Rightarrow>
             (case resp of
                Inl err \<Rightarrow> (Inl err, st\<lparr>fetched := fetched st @ [AccountRequest]\<rparr>)
              | Inr d \<Rightarrow>
                  (Inr d, st\<lparr>cache_account := \<lparr>c_data = d, c_ts = stored_at\<rparr>,
                             fetched := fetched st @ [AccountRequest]\<rparr>)))"

text \<open>
  \<^verbatim>\<open>
  async function getTradesCached(symbol) {
      const c = cache.trades[symbol];
      if (c && Date.now() - c.ts < TRADES_TTL) return c.data;
      const q = `symbol=${symbol}&timestamp=${Date.now()}`;
      const sig = crypto.createHmac("sha256", API_SECRET).update(q).digest("hex");
      const r = await axios.get(`${BASE}/api/v3/myTrades?${q}&signature=${sig}`, { headers: { "X-MBX-APIKEY": API_KEY } });
      cache.trades[symbol] = { data: r.data, ts: Date.now() };
      return r.data;
  }
  \<close>
\<close>

definition getTradesCached ::
  "('acct, 'trades, 'info) state \<Rightarrow> string \<Rightarrow> int \<Rightarrow> 'e + 'trades \<Rightarrow> int \<Rightarrow>
     ('e + 'trades) \<times> ('acct, 'trades, 'info) state" where
  "getTradesCached st sy now resp stored_at =
     (let hit = (case cache_trades st sy of
                   None \<Rightarrow> None
                 | Some c \<Rightarrow> if now - c_ts c < TRADES_TTL then Some (c_data c) else None)
      in case hit of
           Some d \<Rightarrow> (Inr d, st)
         | None \<Rightarrow>
             (case resp of
                Inl err \<Rightarrow> (Inl err, st\<lparr>fetched := fetched st @ [MyTradesRequest sy]\<rparr>)
              | Inr d \<Rightarrow>
                  (Inr d, st\<lparr>cache_trades := (cache_trades st)(sy \<mapsto> \<lparr>c_data = d, c_ts = stored_at\<rparr>),
                             fetched := fetched st @ [MyTradesRequest sy]\<rparr>)))"

text \<open>
  \<^verbatim>\<open>
  async function getPriceCached(symbol) {
      const c = cache.prices[symbol];
      if (c && Date.now() - c.ts < PRICE_TTL) return c.price;
      const r = await axios.get(`${BASE}/api/v3/ticker/price?symbol=${symbol}`);
      const price = parseFloat(r.data.price);
      cache.prices[symbol] = { price, ts: Date.now() };
      return price;
  }
  \<close>
  The payload \<open>resp\<close> is the parsed price.
\<close>

definition getPriceCached ::
  "('acct, 'trades, 'info) state \<Rightarrow> string \<Rightarrow> int \<Rightarrow> 'e + jsnum \<Rightarrow> int \<Rightarrow>
     ('e + jsnum) \<times> ('acct, 'trades, 'info) state" where
  "getPriceCached st sy now resp stored_at =
     (let hit = (case cache_prices st sy of
                   None \<Rightarrow> None
                 | Some c \<Rightarrow> if now - c_ts c < PRICE_TTL then Some (c_data c) else None)
      in case hit of
           Some p \<Rightarrow> (Inr p, st)
         | None \<Rightarrow>
             (case resp of
                Inl err \<Rightarrow> (Inl err, st\<lparr>fetched := fetched st @ [TickerPriceRequest sy]\<rparr>)
              | Inr p \<Rightarrow>
                  (Inr p, st\<lparr>cache_prices := (cache_prices st)(sy \<mapsto> \<lparr>c_data = p, c_ts = stored_at\<rparr>),
                             fetched := fetched st @ [TickerPriceRequest sy]\<rparr>)))"

text \<open>
  \<^verbatim>\<open>
  async function getExchangeInfo() {
      if (exchangeInfoCache.data && Date.now() - exchangeInfoCache.ts < EXCHANGE_INFO_TTL) return exchangeInfoCache.data;
      const r = await axios.get(`${BASE}/api/v3/exchangeInfo`);
      exchangeInfoCache.data = r.data;
      exchangeInfoCache.ts = Date.now();
      return r.data;
  }
  \<close>
\<close>

definition getExchangeInfo ::
  "('acct, 'trades, 'info) state \<Rightarrow> int \<Rightarrow> 'e + 'info option \<Rightarrow> int \<Rightarrow>
     ('e + 'info option) \<times> ('acct, 'trades, 'info) state" where
  "getExchangeInfo st now resp stored_at =
     (let hit = (case c_data (exchangeInfoCache st) of
                   None \<Rightarrow> None
                 | Some d \<Rightarrow> if now - c_ts (exchangeInfoCache st) < EXCHANGE_INFO_TTL then Some d else None)
      in case hit of
           Some d \<Rightarrow> (Inr (Some d), st)
         | None \<Rightarrow>
             (case resp of
                Inl err \<Rightarrow> (Inl err, st\<lparr>fetched := fetched st @ [ExchangeInfoRequest]\<rparr>)
              | Inr d \<Rightarrow>
                  (Inr d, st\<lparr>exchangeInfoCache := \<lparr>c_data = d, c_ts = stored_at\<rparr>,
                             fetched := fetched st @ [ExchangeInfoRequest]\<rparr>)))"

section \<open>Properties of the number model\<close>

text \<open>
  \<open>ilog2\<close> is the binary exponent, and \<open>binary64\<close> moves a number by at most half a unit
  in the last place of its binade.
\<close>

lemma pow2_pos: "0 < pow2 e"
  by (simp add: pow2_def)

lemma pow2_nonneg_exp: "0 \<le> e \<Longrightarrow> pow2 e = 2 ^ nat e"
  by (simp add: pow2_def)

lemma pow2_neg_exp: "0 \<le> k \<Longrightarrow> pow2 (- k) = 1 / 2 ^ nat k"
  by (cases "k = 0") (simp_all add: pow2_def)

lemma pow2_double: "pow2 (e + 1) = 2 * pow2 e"
proof (cases "0 \<le> e")
  case True
  then have "nat (e + 1) = Suc (nat e)" by simp
  with True show ?thesis by (simp add: pow2_def)
next
  case False
  then have "nat (- e) = Suc (nat (- (e + 1)))" by simp
  then have "(2::rat) ^ nat (- e) = 2 * 2 ^ nat (- (e + 1))"
    by (simp only: power_Suc)
  with False show ?thesis
    by (cases "e + 1 = 0") (simp_all add: pow2_def)
qed

lemma bitlen_pos: "0 < m \<Longrightarrow> 1 \<le> bitlen m"
  using bitlen_nonneg [of m] bitlen_eq_zero_iff [of m] by linarith

lemma ilog2_bounds:
  assumes "0 < x"
  shows "pow2 (ilog2 x) \<le> x \<and> x < pow2 (ilog2 x + 1)"
proof (cases "1 \<le> x")
  case True
  define m where "m = \<lfloor>x\<rfloor>"
  have m: "0 < m" using True by (simp add: m_def)
  have b: "1 \<le> bitlen m" using m by (rule bitlen_pos)
  have lo: "(2::int) ^ nat (bitlen m - 1) \<le> m" and hi: "m < 2 ^ nat (bitlen m)"
    using bitlen_bounds [OF m] by simp_all
  have "of_int ((2::int) ^ nat (bitlen m - 1)) \<le> (of_int m :: rat)"
    using lo by (simp only: of_int_le_iff)
  also have "of_int m \<le> x" by (simp add: m_def)
  finally have l: "pow2 (bitlen m - 1) \<le> x"
    using b by (simp add: pow2_nonneg_exp)
  have "x < of_int (m + 1)" unfolding m_def by linarith
  also have "(of_int (m + 1) :: rat) \<le> of_int ((2::int) ^ nat (bitlen m))"
    using hi by (simp only: of_int_le_iff)
  finally have h: "x < pow2 (bitlen m)"
    using b by (simp add: pow2_nonneg_exp)
  show ?thesis
    using True l h by (simp add: ilog2_def m_def)
next
  case False
  define m where "m = \<lfloor>1 / x\<rfloor>"
  define k where "k = bitlen m"
  have inv: "1 < 1 / x" using False assms by simp
  then have m: "0 < m" by (simp add: m_def)
  have k: "1 \<le> k" unfolding k_def using m by (rule bitlen_pos)
  have lo: "(2::int) ^ nat (k - 1) \<le> m" and hi: "m < 2 ^ nat k"
    using bitlen_bounds [OF m] by (simp_all add: k_def)
  have "of_int ((2::int) ^ nat (k - 1)) \<le> (of_int m :: rat)"
    using lo by (simp only: of_int_le_iff)
  also have "of_int m \<le> 1 / x" by (simp add: m_def)
  finally have "(2::rat) ^ nat (k - 1) \<le> 1 / x" by simp
  then have "x * 2 ^ nat (k - 1) \<le> 1"
    using assms by (simp add: field_simps)
  then have "x \<le> 1 / 2 ^ nat (k - 1)"
    by (simp add: field_simps)
  then have up: "x \<le> pow2 (1 - k)"
    using k pow2_neg_exp [of "k - 1"] by simp
  have "1 / x < of_int (m + 1)" unfolding m_def by linarith
  also have "(of_int (m + 1) :: rat) \<le> of_int ((2::int) ^ nat k)"
    using hi by (simp only: of_int_le_iff)
  finally have "1 / x < 2 ^ nat k" by simp
  then have "1 < x * 2 ^ nat k"
    using assms by (simp add: field_simps)
  then have "1 / 2 ^ nat k < x"
    by (simp add: field_simps)
  then have dn: "pow2 (- k) < x"
    using k pow2_neg_exp [of k] by simp
  have dbl: "pow2 (1 - k + 1) = 2 * pow2 (1 - k)" and dbl': "pow2 (- k + 1) = 2 * pow2 (- k)"
    by (rule pow2_double)+
  show ?thesis
  proof (cases "x = pow2 (1 - k)")
    case True
    then have "ilog2 x = 1 - k"
      using False by (simp add: ilog2_def Let_def m_def k_def)
    moreover have "x < 2 * pow2 (1 - k)"
      using True assms by simp
    ultimately show ?thesis
      using True dbl by simp
  next
    case ne: False
    then have "ilog2 x = - k"
      using False by (simp add: ilog2_def Let_def m_def k_def)
    moreover have "x < pow2 (1 - k)"
      using up ne by simp
    moreover have "- k + 1 = 1 - k" by simp
    ultimately show ?thesis
      using dn by simp
  qed
qed

lemma round_half_even_near: "\<bar>of_int (round_half_even m) - m\<bar> \<le> 1 / 2"
proof -
  have "of_int \<lfloor>m\<rfloor> \<le> m" and "m < of_int \<lfloor>m\<rfloor> + 1"
    by linarith+
  then show ?thesis
    by (auto simp add: round_half_even_def Let_def)
qed

lemma binary64_near:
  "\<bar>binary64 x - x\<bar> \<le> pow2 (max (ilog2 \<bar>x\<bar> - 52) (- 1074)) / 2"
proof (cases "x = 0")
  case True
  then show ?thesis
    using pow2_pos [of "max (ilog2 \<bar>x\<bar> - 52) (- 1074)"] by (simp add: binary64_def)
next
  case False
  define p where "p = pow2 (max (ilog2 \<bar>x\<bar> - 52) (- 1074))"
  have p: "0 < p" by (simp add: p_def pow2_pos)
  have "binary64 x - x = (of_int (round_half_even (x / p)) - x / p) * p"
    using False p by (simp add: binary64_def Let_def p_def field_simps)
  then have "\<bar>binary64 x - x\<bar> = \<bar>of_int (round_half_even (x / p)) - x / p\<bar> * p"
    using p by (simp add: abs_mult)
  also have "\<dots> \<le> 1 / 2 * p"
    using round_half_even_near [of "x / p"] p by (intro mult_right_mono) simp_all
  finally show ?thesis
    by (simp add: p_def)
qed

text \<open>The Number nearest to one tenth, and to the default fee rate of one thousandth.\<close>

lemma binary64_tenth: "binary64 (1 / 10) = 3602879701896397 / 36028797018963968"
  by code_simp

lemma binary64_thousandth: "binary64 (1 / 1000) = 1152921504606847 / 1152921504606846976"
  by code_simp

section \<open>Properties of the cost-basis engine\<close>

subsection \<open>The pass, one trade at a time\<close>

lemma positions_loop_snoc:
  "positions_loop r f s (ts @ [t]) = positions_step r f (positions_loop r f s ts) t"
  by (induction ts arbitrary: s) simp_all

lemma positions_pass_snoc:
  "positions_pass r f (ts @ [t]) = positions_step r f (positions_pass r f ts) t"
  by (simp add: positions_pass_def positions_loop_snoc)

text \<open>
  Claim C1. The cost-basis pass of the positions computation starts from
  \<open>openQty = 0\<close> and \<open>openCost = 0\<close>. With \<open>(openQty, openCost)\<close> the state after the
  trades \<open>ts\<close>, a following buy adds \<open>qty\<close> to \<open>openQty\<close> and
  \<open>qty*price + qty*price*feeRate\<close> to \<open>openCost\<close>; a following sell met with
  \<open>openQty > 0\<close> subtracts \<open>qty\<close> from \<open>openQty\<close> and \<open>qty*(openCost/openQty)\<close> from
  \<open>openCost\<close>, each replaced by zero when negative; a following sell met with
  \<open>openQty = 0\<close> (or below) changes nothing. This holds under every rounding \<open>r\<close> of the
  arithmetic; under \<open>exact\<close> the right-hand sides are the formulas as written.
\<close>

theorem positions_pass_steps:
  "positions_pass r FEE_RATE [] = (0, 0) \<and>
   (positions_pass r FEE_RATE ts = (openQty, openCost) \<longrightarrow>
      (isBuyer t \<longrightarrow>
         positions_pass r FEE_RATE (ts @ [t]) =
           (r (openQty + qty t),
            r (openCost + r (r (qty t * price t) + r (r (qty t * price t) * FEE_RATE))))) \<and>
      (\<not> isBuyer t \<and> 0 < openQty \<longrightarrow>
         positions_pass r FEE_RATE (ts @ [t]) =
           (max 0 (r (openQty - qty t)),
            max 0 (r (openCost - r (qty t * r (openCost / openQty)))))) \<and>
      (\<not> isBuyer t \<and> openQty \<le> 0 \<longrightarrow>
         positions_pass r FEE_RATE (ts @ [t]) = (openQty, openCost)))"
proof -
  have "positions_pass r FEE_RATE [] = (0, 0)"
    by (simp add: positions_pass_def)
  moreover have "positions_pass r FEE_RATE (ts @ [t]) = positions_step r FEE_RATE (openQty, openCost) t"
    if "positions_pass r FEE_RATE ts = (openQty, openCost)"
    using that by (simp add: positions_pass_snoc)
  ultimately show ?thesis
    by (auto simp add: positions_step_def Let_def max_def)
qed

theorem positions_pass_steps_witness:
  "positions_pass exact (1 / 1000) [] = (0, 0) \<and>
   positions_pass exact (1 / 1000) [\<lparr>qty = 2, price = 10, isBuyer = True\<rparr>] = (2, 2002 / 100) \<and>
   positions_pass exact (1 / 1000)
     [\<lparr>qty = 2, price = 10, isBuyer = True\<rparr>, \<lparr>qty = 1, price = 30, isBuyer = False\<rparr>] = (1, 1001 / 100) \<and>
   positions_pass exact (1 / 1000)
     [\<lparr>qty = 2, price = 10, isBuyer = True\<rparr>, \<lparr>qty = 3, price = 30, isBuyer = False\<rparr>] = (0, 0) \<and>
   positions_pass exact (1 / 1000)
     [\<lparr>qty = 3, price = 30, isBuyer = False\<rparr>] = (0, 0)"
  using positions_pass_steps [of exact "1 / 1000" "[]" 0 0 "\<lparr>qty = 2, price = 10, isBuyer = True\<rparr>"]
    positions_pass_steps [of exact "1 / 1000" "[\<lparr>qty = 2, price = 10, isBuyer = True\<rparr>]" 2 "2002 / 100"
       "\<lparr>qty = 1, price = 30, isBuyer = False\<rparr>"]
    positions_pass_steps [of exact "1 / 1000" "[\<lparr>qty = 2, price = 10, isBuyer = True\<rparr>]" 2 "2002 / 100"
       "\<lparr>qty = 3, price = 30, isBuyer = False\<rparr>"]
    positions_pass_steps [of exact "1 / 1000" "[]" 0 0 "\<lparr>qty = 3, price = 30, isBuyer = False\<rparr>"]
  by (simp add: exact_def)

subsection \<open>Overselling\<close>

text \<open>
  In the positions pass a sell that is processed leaves neither component negative,
  whatever the rounding: the two clamps see to it.
\<close>

lemma positions_sell_nonneg:
  "\<not> isBuyer t \<Longrightarrow> 0 < fst s \<Longrightarrow>
     0 \<le> fst (positions_step r f s t) \<and> 0 \<le> snd (positions_step r f s t)"
  by (simp add: positions_step_def Let_def)

text \<open>
  The pass of the break-even endpoint has no clamp. Buying 1 at 100 and then selling 2
  leaves \<open>qty = -1\<close> and a negative \<open>cost\<close>, for every fee rate.
\<close>

lemma breakeven_oversell_exact:
  "breakeven_pass exact f
     [\<lparr>qty = 1, price = 100, isBuyer = True\<rparr>, \<lparr>qty = 2, price = 100, isBuyer = False\<rparr>]
   = (- 1, - (100 + 100 * f))"
  by (simp add: breakeven_pass_def breakeven_step_def exact_def Let_def)

text \<open>
  Claim C2. In every operation that runs the cost-basis pass, selling more than the
  tracked open quantity leaves neither \<open>openQty\<close> nor \<open>openCost\<close> negative. The
  positions pass keeps to it; the pass of \<open>GET /breakeven/:symbol\<close>, headed
  ``consistent with positions'', does not: on a buy of 1 at 100 followed by a sell of 2 at
  100 with fee rate 0, in binary64 arithmetic, it ends with \<open>qty = -1\<close> and \<open>cost = -100\<close>
  and the response carries the total quantity \<open>-1\<close>, where the positions pass ends with
  \<open>(0, 0)\<close>.
\<close>

theorem breakeven_oversell_negative:
  "breakeven_pass binary64 0
     [\<lparr>qty = 1, price = 100, isBuyer = True\<rparr>, \<lparr>qty = 2, price = 100, isBuyer = False\<rparr>] = (- 1, - 100) \<and>
   br_totalQuantity (breakeven_endpoint binary64 0
     [\<lparr>qty = 1, price = 100, isBuyer = True\<rparr>, \<lparr>qty = 2, price = 100, isBuyer = False\<rparr>]) = - 1 \<and>
   positions_pass binary64 0
     [\<lparr>qty = 1, price = 100, isBuyer = True\<rparr>, \<lparr>qty = 2, price = 100, isBuyer = False\<rparr>] = (0, 0)"
  by code_simp

subsection \<open>Buys only\<close>








subsection \<open>Full close\<close>

text \<open>
  In exact arithmetic a sell of exactly the open quantity empties both components, and
  under any rounding that keeps zero it empties \<open>openQty\<close> and leaves \<open>openCost\<close>
  non-negative.
\<close>

lemma full_close_exact:
  assumes "positions_pass exact f ts = (openQty, openCost)" and "0 < openQty"
    and "\<not> isBuyer t" and "qty t = openQty"
  shows "positions_pass exact f (ts @ [t]) = (0, 0)"
  using assms by (simp add: positions_pass_snoc positions_step_def exact_def Let_def)

lemma full_close_openQty:
  assumes "positions_pass r f ts = (openQty, openCost)" and "0 < openQty"
    and "\<not> isBuyer t" and "qty t = openQty" and "r 0 = 0"
  shows "fst (positions_pass r f (ts @ [t])) = 0 \<and> 0 \<le> snd (positions_pass r f (ts @ [t]))"
  using assms by (simp add: positions_pass_snoc positions_step_def Let_def)

text \<open>
  Claim C4. After a sell whose quantity equals the open quantity tracked just before
  it, \<open>openQty\<close> and \<open>openCost\<close> are both exactly 0. In the arithmetic of the runtime
  \<open>openCost\<close> is not: after buying 6 at 10 and 1 at 1 with fee rate 0 the pass holds
  \<open>openQty = 7\<close> and \<open>openCost = 61\<close>; the sell of 7 computes \<open>avg = 61/7\<close> rounded,
  then \<open>7*avg\<close> rounded, which is \<open>61 - 2^-47\<close>, and leaves \<open>openCost = 2^-47\<close>, a
  positive residue that the clamp for negative values does not remove.
\<close>

theorem full_close_residue:
  "positions_pass binary64 0
     [\<lparr>qty = 6, price = 10, isBuyer = True\<rparr>, \<lparr>qty = 1, price = 1, isBuyer = True\<rparr>] = (7, 61) \<and>
   positions_pass binary64 0
     [\<lparr>qty = 6, price = 10, isBuyer = True\<rparr>, \<lparr>qty = 1, price = 1, isBuyer = True\<rparr>,
      \<lparr>qty = 7, price = 10, isBuyer = False\<rparr>] = (0, 1 / 140737488355328)"
  by code_simp

subsection \<open>The dust filter\<close>

text \<open>
  Claim C10. The dust filter is a strict comparison: a position whose market value
  \<open>openQty * currentPrice\<close> is exactly 10 is in the output, with market value 10, and a
  symbol with an open quantity is left out exactly when its market value is below 10.
\<close>

theorem dust_filter_strict:
  assumes "positions_pass r FEE_RATE ts = (openQty, openCost)" and "0 < openQty"
  shows "(r (openQty * p) = 10 \<longrightarrow>
            (\<exists>e. position_entry r FEE_RATE sy ts p = Some e \<and> marketValue e = toFixed_val 2 10)) \<and>
         (position_entry r FEE_RATE sy ts p = None \<longleftrightarrow> r (openQty * p) < 10)"
  using assms by (simp add: position_entry_def position_values_def Let_def)

theorem dust_filter_strict_witness:
  "positions_pass exact (1 / 1000) [\<lparr>qty = 2, price = 3, isBuyer = True\<rparr>] = (2, 3003 / 500) \<and>
   exact (2 * 5) = 10 \<and>
   (\<exists>e. position_entry exact (1 / 1000) ''BTCUSDT'' [\<lparr>qty = 2, price = 3, isBuyer = True\<rparr>] 5 = Some e \<and>
        marketValue e = 10) \<and>
   position_entry exact (1 / 1000) ''BTCUSDT'' [\<lparr>qty = 2, price = 3, isBuyer = True\<rparr>] (999 / 200) = None"
proof -
  have pass: "positions_pass exact (1 / 1000) [\<lparr>qty = 2, price = 3, isBuyer = True\<rparr>] = (2, 3003 / 500)"
    by (simp add: positions_pass_def positions_step_def exact_def)
  have v: "toFixed_val 2 10 = 10"
    by code_simp
  show ?thesis
    using dust_filter_strict [OF pass, of 5 "''BTCUSDT''"]
      dust_filter_strict [OF pass, of "999 / 200" "''BTCUSDT''"] pass v
    by (simp add: exact_def)
qed

subsection \<open>Scenarios\<close>

text \<open>
  Two buys of 1 at 100 and at 200 and a sell of 1, without fee: the open quantity is 1
  and the break-even price 150, so that at the price 150 nothing is gained or lost; the
  market value 150 is above the filter.
\<close>

lemma scenario_average_cost:
  "position_values exact 0
     [\<lparr>qty = 1, price = 100, isBuyer = True\<rparr>, \<lparr>qty = 1, price = 200, isBuyer = True\<rparr>,
      \<lparr>qty = 1, price = 300, isBuyer = False\<rparr>] 150 =
   Some \<lparr>pv_openQty = 1, pv_breakEven = 150, pv_value = 150, pv_pnl = 0\<rparr>"
  by code_simp

text \<open>One buy of 2 at 10 with the fee rate 0.001, at the price 20.\<close>

lemma scenario_fee:
  "positions_pass exact (1 / 1000) [\<lparr>qty = 2, price = 10, isBuyer = True\<rparr>] = (2, 2002 / 100) \<and>
   position_values exact (1 / 1000) [\<lparr>qty = 2, price = 10, isBuyer = True\<rparr>] 20 =
     Some \<lparr>pv_openQty = 2, pv_breakEven = 1001 / 100, pv_value = 40, pv_pnl = 1998 / 100\<rparr>"
  by code_simp

text \<open>A position worth 9.99 is left out although its quantity is open.\<close>

lemma scenario_dust:
  "positions_pass exact 0 [\<lparr>qty = 1, price = 5, isBuyer = True\<rparr>] = (1, 5) \<and>
   position_entry exact 0 ''BTCUSDT'' [\<lparr>qty = 1, price = 5, isBuyer = True\<rparr>] (999 / 100) = None"
  by code_simp

section \<open>Properties of the numeric adjustment module\<close>

subsection \<open>Digits and strings\<close>

lemma digit_char_code: "d < 10 \<Longrightarrow> (of_char (digit_char d) :: nat) = 48 + d"
  by (simp add: digit_char_def)

lemma digit_char_props:
  assumes "d < 10"
  shows "\<not> is_e (digit_char d)" and "\<not> is_dot (digit_char d)" and "is_digit (digit_char d)"
    and "\<not> is_space (digit_char d)"
proof -
  have c: "(of_char (digit_char d) :: nat) = 48 + d"
    using assms by (rule digit_char_code)
  have "digit_char d \<noteq> CHR ''e''" "digit_char d \<noteq> CHR ''E''" "digit_char d \<noteq> CHR ''.''"
    using c assms by (auto dest: arg_cong [where f = "of_char :: char \<Rightarrow> nat"])
  then show "\<not> is_e (digit_char d)" and "\<not> is_dot (digit_char d)"
    by (simp_all add: is_e_def is_dot_def)
  show "is_digit (digit_char d)" using c assms by (simp add: is_digit_def)
  show "\<not> is_space (digit_char d)" using c assms by (simp add: is_space_def)
qed

lemma digs_props:
  assumes "list_all (\<lambda>d. d < 10) ds"
  shows "\<not> list_ex is_e (digs ds)" and "\<not> list_ex is_dot (digs ds)" and "list_all is_digit (digs ds)"
  using assms by (induction ds) (simp_all add: digs_def digit_char_props)

lemma zero_char: "CHR ''0'' = digit_char 0"
  by code_simp

lemma zeros_props:
  "\<not> list_ex is_e (replicate m (CHR ''0''))" "\<not> list_ex is_dot (replicate m (CHR ''0''))"
  by (induction m) (simp_all add: zero_char digit_char_props)

lemma show_nat_digits: "list_all is_digit (show_nat a) \<and> show_nat a \<noteq> []"
proof (induction a rule: show_nat.induct)
  case (1 n)
  show ?case
  proof (cases "n < 10")
    case True
    then show ?thesis by (simp add: show_nat.simps [of n] digit_char_props)
  next
    case False
    with 1 show ?thesis by (simp add: show_nat.simps [of n] digit_char_props)
  qed
qed

lemma read_nat_snoc: "read_nat acc (xs @ [c]) = read_nat acc xs * 10 + (of_char c - 48)"
  by (induction xs arbitrary: acc) simp_all

lemma read_show_nat: "read_nat 0 (show_nat a) = a"
proof (induction a rule: show_nat.induct)
  case (1 n)
  show ?case
  proof (cases "n < 10")
    case True
    then show ?thesis by (simp add: show_nat.simps [of n] digit_char_code)
  next
    case False
    with 1 have "read_nat 0 (show_nat (n div 10)) = n div 10" by simp
    with False show ?thesis
      by (simp add: show_nat.simps [of n] read_nat_snoc digit_char_code)
  qed
qed

lemma split_on_none: "\<not> list_ex sep xs \<Longrightarrow> split_on sep xs = [xs]"
  by (induction xs) simp_all

lemma split_on_first:
  "\<not> list_ex sep xs \<Longrightarrow> sep c \<Longrightarrow> split_on sep (xs @ c # ys) = xs # split_on sep ys"
  by (induction xs) simp_all

lemma is_digit_not_e: "is_digit c \<Longrightarrow> \<not> is_e c"
  by (auto simp add: is_digit_def is_e_def)

lemma digits_no_e: "list_all is_digit xs \<Longrightarrow> \<not> list_ex is_e xs"
  by (induction xs) (simp_all add: is_digit_not_e)

lemma takeWhile_all: "list_all P xs \<Longrightarrow> takeWhile P xs = xs"
  by (induction xs) simp_all

lemma takeWhile_show_nat: "takeWhile is_digit (show_nat m) = show_nat m"
  using show_nat_digits [of m] by (simp add: takeWhile_all)

lemma parseInt_signed:
  "parseInt (Some ((if e < 0 then ''-'' else ''+'') @ show_nat (nat \<bar>e\<bar>))) = Num (of_int e)"
proof -
  have sp: "\<not> is_space (CHR ''-'')" "\<not> is_space (CHR ''+'')"
    by (simp_all add: is_space_def)
  show ?thesis
    using show_nat_digits [of "nat \<bar>e\<bar>"]
    by (cases "e < 0") (simp_all add: parseInt_def Let_def sp takeWhile_show_nat read_show_nat)
qed


lemma sign_props:
  assumes "sg = [] \<or> sg = ''-''"
  shows "\<not> list_ex is_e sg" and "\<not> list_ex is_dot sg"
  using assms by (auto simp add: is_e_def is_dot_def)

lemma list_all_take_drop:
  "list_all P xs \<Longrightarrow> list_all P (take m xs) \<and> list_all P (drop m xs)"
  by (auto simp add: list_all_iff dest: in_set_takeD in_set_dropD)

lemma countDecimals_plain:
  assumes ds: "list_all (\<lambda>d. d < 10) ds" and sg: "sg = [] \<or> sg = ''-''"
  shows "countDecimals_str (sg @ plain_digits ds n) = Num (of_int (max 0 (int (length ds) - n)))"
proof -
  note sp = sign_props [OF sg]
  consider (int) "int (length ds) \<le> n" | (mid) "0 < n" "n < int (length ds)" | (low) "n \<le> 0" "n < int (length ds)"
    by linarith
  then show ?thesis
  proof cases
    case int
    have "\<not> list_ex is_e (sg @ digs ds @ replicate (nat (n - int (length ds))) (CHR ''0''))"
      and "\<not> list_ex is_dot (sg @ digs ds @ replicate (nat (n - int (length ds))) (CHR ''0''))"
      using sp digs_props [OF ds] zeros_props by simp_all
    with int show ?thesis
      by (simp add: countDecimals_str_def plain_digits_def)
  next
    case mid
    let ?a = "digs (take (nat n) ds)" and ?b = "digs (drop (nat n) ds)"
    have a: "\<not> list_ex is_e ?a" "\<not> list_ex is_dot ?a" and b: "\<not> list_ex is_e ?b" "\<not> list_ex is_dot ?b"
      using digs_props list_all_take_drop [OF ds, of "nat n"] by simp_all
    have str: "sg @ plain_digits ds n = (sg @ ?a) @ CHR ''.'' # ?b"
      using mid by (simp add: plain_digits_def)
    have noe: "\<not> list_ex is_e ((sg @ ?a) @ CHR ''.'' # ?b)"
      using sp a b by (simp add: is_e_def)
    have dot: "list_ex is_dot ((sg @ ?a) @ CHR ''.'' # ?b)"
      by (simp add: is_dot_def)
    have "split_on is_dot ((sg @ ?a) @ CHR ''.'' # ?b) = (sg @ ?a) # split_on is_dot ?b"
      using sp a by (intro split_on_first) (simp_all add: is_dot_def)
    also have "split_on is_dot ?b = [?b]"
      using b by (simp add: split_on_none)
    finally have "index1 (split_on is_dot ((sg @ ?a) @ CHR ''.'' # ?b)) = Some ?b"
      by simp
    moreover have "length ?b = length ds - nat n"
      by (simp add: digs_def)
    ultimately show ?thesis
      unfolding str using noe dot mid
      by (simp add: countDecimals_str_def length_or_empty_def)
  next
    case low
    let ?b = "replicate (nat (- n)) (CHR ''0'') @ digs ds"
    have b: "\<not> list_ex is_e ?b" "\<not> list_ex is_dot ?b"
      using digs_props [OF ds] zeros_props by simp_all
    have z: "\<not> is_e (CHR ''0'')" "\<not> is_dot (CHR ''0'')"
      by (simp_all add: is_e_def is_dot_def)
    have str: "sg @ plain_digits ds n = (sg @ ''0'') @ CHR ''.'' # ?b"
      using low by (simp add: plain_digits_def)
    have noe: "\<not> list_ex is_e ((sg @ ''0'') @ CHR ''.'' # ?b)"
      using sp b z by (simp add: is_e_def)
    have dot: "list_ex is_dot ((sg @ ''0'') @ CHR ''.'' # ?b)"
      by (simp add: is_dot_def)
    have "split_on is_dot ((sg @ ''0'') @ CHR ''.'' # ?b) = (sg @ ''0'') # split_on is_dot ?b"
      using sp z by (intro split_on_first) (simp_all add: is_dot_def)
    also have "split_on is_dot ?b = [?b]"
      using b by (simp add: split_on_none)
    finally have "index1 (split_on is_dot ((sg @ ''0'') @ CHR ''.'' # ?b)) = Some ?b"
      by simp
    moreover have "length ?b = nat (- n) + length ds"
      by (simp add: digs_def)
    ultimately show ?thesis
      unfolding str using noe dot low
      by (simp add: countDecimals_str_def length_or_empty_def)
  qed
qed

lemma countDecimals_sci:
  assumes ds: "list_all (\<lambda>d. d < 10) ds" and ne: "ds \<noteq> []" and sg: "sg = [] \<or> sg = ''-''"
  shows "countDecimals_str (sg @ sci_digits ds n) = Num (of_int (max 0 (int (length ds) - n)))"
proof -
  note sp = sign_props [OF sg]
  let ?ex = "(if n - 1 < 0 then ''-'' else ''+'') @ show_nat (nat \<bar>n - 1\<bar>)"
  let ?m = "(if length ds = 1 then digs ds else digs (take 1 ds) @ ''.'' @ digs (drop 1 ds))"
  have exe: "\<not> list_ex is_e ?ex"
    using show_nat_digits [of "nat \<bar>n - 1\<bar>"] by (simp add: digits_no_e is_e_def)
  have td: "list_all (\<lambda>d. d < 10) (take 1 ds)" "list_all (\<lambda>d. d < 10) (drop 1 ds)"
    using list_all_take_drop [OF ds, of 1] by simp_all
  have me: "\<not> list_ex is_e (sg @ ?m)"
    using sp digs_props [OF ds] digs_props [OF td(1)] digs_props [OF td(2)] by (simp add: is_e_def)
  have str: "sg @ sci_digits ds n = (sg @ ?m) @ CHR ''e'' # ?ex"
    by (simp add: sci_digits_def Let_def)
  have e: "list_ex is_e ((sg @ ?m) @ CHR ''e'' # ?ex)"
    by (simp add: is_e_def)
  have "split_on is_e ((sg @ ?m) @ CHR ''e'' # ?ex) = (sg @ ?m) # split_on is_e ?ex"
    using me by (intro split_on_first) (simp_all add: is_e_def)
  also have "split_on is_e ?ex = [?ex]"
    by (rule split_on_none [OF exe])
  finally have parts: "split_on is_e ((sg @ ?m) @ CHR ''e'' # ?ex) = [sg @ ?m, ?ex]" .
  have pe: "parseInt (Some ?ex) = Num (of_int (n - 1))"
    by (rule parseInt_signed)
  have dec: "length_or_empty (index1 (split_on is_dot (sg @ ?m))) = length ds - 1"
  proof (cases "length ds = 1")
    case True
    then have "\<not> list_ex is_dot (sg @ ?m)"
      using sp digs_props [OF ds] by simp
    then have "split_on is_dot (sg @ ?m) = [sg @ ?m]"
      by (rule split_on_none)
    with True show ?thesis by (simp add: length_or_empty_def)
  next
    case False
    let ?a = "digs (take 1 ds)" and ?b = "digs (drop 1 ds)"
    have "split_on is_dot ((sg @ ?a) @ CHR ''.'' # ?b) = (sg @ ?a) # split_on is_dot ?b"
      using sp digs_props [OF td(1)] by (intro split_on_first) (simp_all add: is_dot_def)
    also have "split_on is_dot ?b = [?b]"
      using digs_props [OF td(2)] by (simp add: split_on_none)
    finally have "index1 (split_on is_dot ((sg @ ?a) @ CHR ''.'' # ?b)) = Some ?b"
      by simp
    with False show ?thesis by (simp add: length_or_empty_def digs_def)
  qed
  have len: "0 < length ds" using ne by simp
  have "countDecimals_str ((sg @ ?m) @ CHR ''e'' # ?ex) =
          Num (max 0 (of_nat (length ds - 1) - of_int (n - 1)))"
    using e by (simp only: countDecimals_str_def parts Let_def list.sel index1.simps pe dec if_True jsnum.case)
  also have "(of_nat (length ds - 1) :: rat) - of_int (n - 1) = of_int (int (length ds) - n)"
  proof -
    obtain m where m: "length ds = Suc m"
      using ne by (cases ds) auto
    show ?thesis by (simp add: m)
  qed
  also have "max 0 (of_int (int (length ds) - n)) = (of_int (max 0 (int (length ds) - n)) :: rat)"
    by (simp add: max_def)
  finally show ?thesis unfolding str .
qed

lemma countDecimals_PrNum:
  assumes "canonical ds"
  shows "countDecimals (PrNum neg ds n) = Num (of_int (max 0 (int (length ds) - n)))"
proof -
  have ds: "list_all (\<lambda>d. d < 10) ds" and ne: "ds \<noteq> []"
    using assms by (simp_all add: canonical_def)
  have sg: "(if neg then ''-'' else []) = [] \<or> (if neg then ''-'' else []) = ''-''"
    by simp
  show ?thesis
    using countDecimals_plain [OF ds sg, of n] countDecimals_sci [OF ds ne sg, of n]
    by (simp add: countDecimals_def)
qed

subsection \<open>The value behind the digits\<close>

lemma digits_val_mod10:
  "ds \<noteq> [] \<Longrightarrow> list_all (\<lambda>d. d < 10) ds \<Longrightarrow> digits_val ds mod 10 = last ds"
proof (induction ds)
  case Nil
  then show ?case by simp
next
  case (Cons d ds)
  show ?case
  proof (cases "ds = []")
    case True
    with Cons.prems show ?thesis by simp
  next
    case False
    then obtain m where m: "length ds = Suc m"
      by (cases ds) auto
    from False Cons have "digits_val ds mod 10 = last ds" by simp
    moreover have "d * 10 ^ length ds = 10 * (d * 10 ^ m)"
      by (simp add: m)
    then have "(d * 10 ^ length ds + digits_val ds) mod 10 = digits_val ds mod 10"
      by (simp only: mod_mult_self4)
    ultimately show ?thesis
      using False by (simp only: digits_val.simps last.simps if_False)
  qed
qed




lemma not_int_div_pow10:
  assumes "s mod 10 \<noteq> (0::nat)" and "0 < j"
  shows "(of_nat s :: rat) / 10 ^ j \<notin> \<int>"
proof
  assume "(of_nat s :: rat) / 10 ^ j \<in> \<int>"
  then obtain z :: int where z: "(of_nat s :: rat) / 10 ^ j = of_int z"
    by (auto elim: Ints_cases)
  then have "(of_int (int s) :: rat) = of_int (z * 10 ^ j)"
    by (simp add: field_simps)
  then have "int s = z * 10 ^ j"
    by (simp only: of_int_eq_iff)
  moreover obtain i where "j = Suc i"
    using assms(2) by (cases j) auto
  ultimately have "int s = 10 * (z * 10 ^ i)"
    by simp
  then have "(10::int) dvd int s" ..
  then have "int s mod 10 = 0" by simp
  then have "s mod 10 = 0"
    by (metis int_ops(1) of_nat_eq_iff of_nat_mod of_nat_numeral)
  with assms(1) show False by simp
qed

lemma fraction_digits_dec_val:
  assumes "canonical ds"
  shows "fraction_digits (dec_val ds n) (nat (max 0 (int (length ds) - n)))"
proof (cases "int (length ds) \<le> n")
  case True
  then have "dec_val ds n = of_nat (digits_val ds * 10 ^ nat (n - int (length ds)))"
    by (simp add: dec_val_def pow10_def)
  then have "dec_val ds n \<in> \<int>"
    by (simp only: Ints_of_nat)
  with True show ?thesis
    by (simp add: fraction_digits_def)
next
  case False
  define j where "j = nat (int (length ds) - n)"
  have j: "0 < j" "max 0 (int (length ds) - n) = int j"
    using False by (simp_all add: j_def)
  have v: "dec_val ds n = of_nat (digits_val ds) / 10 ^ j"
    using False by (simp add: dec_val_def pow10_def j_def)
  have m10: "digits_val ds mod 10 \<noteq> 0"
    using assms digits_val_mod10 [of ds] by (simp add: canonical_def)
  have "dec_val ds n * 10 ^ j \<in> \<int>"
    by (simp add: v)
  moreover have "dec_val ds n * 10 ^ d' \<notin> \<int>" if "d' < j" for d'
  proof -
    have "j = (j - d') + d'" using that by simp
    then have "(10::rat) ^ j = 10 ^ (j - d') * 10 ^ d'"
      by (metis power_add)
    then have "dec_val ds n * 10 ^ d' = of_nat (digits_val ds) / 10 ^ (j - d')"
      by (simp add: v)
    with not_int_div_pow10 [OF m10, of "j - d'"] that show ?thesis
      by simp
  qed
  ultimately show ?thesis
    by (simp add: fraction_digits_def j)
qed

lemma countDecimals_PrZero: "countDecimals PrZero = Num 0"
  by code_simp

lemma fraction_digits_minus: "fraction_digits (- x) d \<longleftrightarrow> fraction_digits x d"
  by (simp add: fraction_digits_def)

text \<open>
  Claim C7. \<open>countDecimals\<close> returns the number of significant fractional digits of the
  number: for the number with the canonical digits \<open>ds\<close> and decimal point position
  \<open>n\<close>, of either sign, it returns \<open>max 0 (k - n)\<close> for \<open>k\<close> the number of digits, and that
  many decimals write the value exactly while no fewer do; for zero it returns 0. The
  count is the same read from the plain notation and from the exponent notation of the
  number, whichever the runtime prints.
\<close>

theorem countDecimals_fraction_digits:
  assumes "canonical ds"
  shows "countDecimals PrZero = Num 0 \<and> fraction_digits 0 0 \<and>
         countDecimals (PrNum neg ds n) = Num (of_int (max 0 (int (length ds) - n))) \<and>
         fraction_digits (dec_val ds n) (nat (max 0 (int (length ds) - n))) \<and>
         fraction_digits (- dec_val ds n) (nat (max 0 (int (length ds) - n))) \<and>
         countDecimals_str ((if neg then ''-'' else []) @ plain_digits ds n) =
           Num (of_int (max 0 (int (length ds) - n))) \<and>
         countDecimals_str ((if neg then ''-'' else []) @ sci_digits ds n) =
           Num (of_int (max 0 (int (length ds) - n)))"
proof -
  have ds: "list_all (\<lambda>d. d < 10) ds" and ne: "ds \<noteq> []"
    using assms by (simp_all add: canonical_def)
  have sg: "(if neg then ''-'' else []) = [] \<or> (if neg then ''-'' else []) = ''-''"
    by simp
  show ?thesis
    using countDecimals_PrNum [OF assms] fraction_digits_dec_val [OF assms]
      countDecimals_plain [OF ds sg] countDecimals_sci [OF ds ne sg]
    by (simp add: fraction_digits_minus countDecimals_PrZero fraction_digits_def)
qed

theorem countDecimals_fraction_digits_witness:
  "canonical [1] \<and>
   dec_val [1] (- 6) = 1 / 10000000 \<and>
   toString (PrNum False [1] (- 6)) = ''1e-7'' \<and>
   countDecimals (PrNum False [1] (- 6)) = Num 7 \<and>
   fraction_digits (dec_val [1] (- 6)) 7 \<and>
   countDecimals_str ''0.0000001'' = Num 7 \<and>
   countDecimals_str ''1e-7'' = Num 7"
proof -
  have c: "canonical [1]"
    by (simp add: canonical_def)
  have v: "dec_val [1] (- 6) = 1 / 10000000"
    by (simp add: dec_val_def pow10_def)
  have p: "plain_digits [1] (- 6) = ''0.0000001''" and s: "sci_digits [1] (- 6) = ''1e-7''"
    and t: "toString (PrNum False [1] (- 6)) = ''1e-7''"
    by code_simp+
  show ?thesis
    using countDecimals_fraction_digits [OF c, of False "- 6"] c v p s t
    by simp
qed

subsection \<open>Formatting a value that has no more decimals than asked for\<close>



subsection \<open>Quantity adjustment\<close>




text \<open>
  The theorem is one of exact arithmetic. In the arithmetic of the runtime the Numbers
  nearest to 0.3 and to 0.1 have a quotient just below 3, and a quantity of 0.3 with the
  step size 0.1 comes back as 0.2.
\<close>

lemma adjustQty_binary64_step_lost:
  "adjustQtyForLotSize binary64 (Num (binary64 (3 / 10))) (PrNum False [1] 0) (Num (binary64 (1 / 10))) =
     Inr (Num (2 / 10))"
  by code_simp

subsection \<open>A step size or tick size of zero\<close>

text \<open>
  Claim C8, as stated: with a tick size or step size of 0 the adjustment operations
  fail with \<open>InvalidFilterError\<close> and return no value. They divide by zero and return:
  the quotient is infinite, its product with 0 is \<open>NaN\<close>, and \<open>toFixed(0)\<close> prints \<open>NaN\<close>.
\<close>

theorem zero_tick_returns_counterexample:
  "roundPrice binary64 (Num 1) PrZero = Inr NaN \<and>
   adjustQtyForLotSize binary64 (Num 1) PrZero (Num 1) = Inr NaN"
  by code_simp

text \<open>
  Claim C8, amended. No adjustment operation checks its step size, and none raises an
  error of its own. For every price, quantity and minimum quantity, under every
  rounding: \<open>roundPrice\<close> with tick size 0 and \<open>adjustQtyForLotSize\<close> with step size 0
  return \<open>NaN\<close>; \<open>adjustToStepSize\<close> with step size 0 computes the precision
  \<open>Infinity\<close> and the \<open>toFixed\<close> of the runtime throws \<open>RangeError\<close>.
\<close>

theorem zero_step_behaviour:
  "roundPrice r p PrZero = Inr NaN \<and>
   adjustQtyForLotSize r q PrZero minQty = Inr NaN \<and>
   adjustToStepSize r q (Num 0) = Inl RangeError"
proof -
  have nan: "js_mul r (js_floor (js_div r x (Num 0))) (Num 0) = NaN" for x
    by (cases x) simp_all
  have "roundPrice r p PrZero = Inr NaN"
    by (simp add: roundPrice_def countDecimals_PrZero nan toFixed_def)
  moreover have "adjustQtyForLotSize r q PrZero minQty = Inr NaN"
    by (simp add: adjustQtyForLotSize_def countDecimals_PrZero nan toFixed_def)
  moreover have "adjustToStepSize r q (Num 0) = Inl RangeError"
    by (simp add: adjustToStepSize_def toFixed_def)
  ultimately show ?thesis by simp
qed

section \<open>Properties of the signing module\<close>

text \<open>
  Claim C9, as stated: signing fails with \<open>ConfigurationError\<close> when the secret is
  absent or empty, and produces no signed query string. With the empty secret
  \<open>signQuery\<close> returns a query string, signed under the empty key.
\<close>

theorem signQuery_empty_secret_counterexample:
  "signQuery (Some []) [(''timestamp'', ''1700000000000'')] =
     Inr (SignedQuery ''timestamp=1700000000000'' (HmacSha256Hex [] ''timestamp=1700000000000''))"
  by code_simp

text \<open>
  Claim C9, amended. \<open>signQuery\<close> does not look at the secret. For every parameter
  mapping: when the secret is absent the call of \<open>crypto.createHmac\<close> throws the
  \<open>TypeError\<close> of the runtime, and no signed query string is produced; for every
  secret that is a string, the empty one included, \<open>signQuery\<close> returns the serialised
  parameters followed by their HMAC-SHA256 under that secret.
\<close>

theorem signQuery_secret:
  "signQuery None params = Inl TypeError \<and>
   signQuery (Some []) params =
     Inr (SignedQuery (serialize params) (HmacSha256Hex [] (serialize params))) \<and>
   signQuery (Some k) params =
     Inr (SignedQuery (serialize params) (HmacSha256Hex k (serialize params)))"
  by (simp add: signQuery_def createHmac_digest_def Let_def)

section \<open>Properties of the cache layer\<close>

subsection \<open>Account snapshot\<close>

lemma account_hit:
  "c_data (cache_account st) = Some a \<Longrightarrow> now - c_ts (cache_account st) < ACCOUNT_TTL \<Longrightarrow>
   getAccountCached st now resp t = (Inr (Some a), st)"
  by (simp add: getAccountCached_def)

lemma account_miss:
  "c_data (cache_account st) = None \<or> ACCOUNT_TTL \<le> now - c_ts (cache_account st) \<Longrightarrow>
   getAccountCached st now (Inr v) t =
     (Inr v, st\<lparr>cache_account := \<lparr>c_data = v, c_ts = t\<rparr>,
               fetched := fetched st @ [AccountRequest]\<rparr>)"
  by (auto simp add: getAccountCached_def split: option.splits)

lemma account_miss_failed:
  "c_data (cache_account st) = None \<or> ACCOUNT_TTL \<le> now - c_ts (cache_account st) \<Longrightarrow>
   getAccountCached st now (Inl err) t = (Inl err, st\<lparr>fetched := fetched st @ [AccountRequest]\<rparr>)"
  by (auto simp add: getAccountCached_def split: option.splits)

lemma account_miss_fetched:
  "c_data (cache_account st) = None \<or> ACCOUNT_TTL \<le> now - c_ts (cache_account st) \<Longrightarrow>
   fetched (snd (getAccountCached st now resp t)) = fetched st @ [AccountRequest]"
  by (cases resp) (simp_all add: account_miss account_miss_failed)

text \<open>A payload that counts as false is stored and never found: every read sends the request.\<close>

lemma account_false_payload:
  "c_data (cache_account st) = None \<Longrightarrow>
   fetched (snd (getAccountCached st now resp t)) = fetched st @ [AccountRequest]"
  by (simp add: account_miss_fetched)

subsection \<open>Trades of a symbol\<close>

lemma trades_hit:
  "cache_trades st sy = Some ct \<Longrightarrow> now - c_ts ct < TRADES_TTL \<Longrightarrow>
   getTradesCached st sy now resp t = (Inr (c_data ct), st)"
  by (simp add: getTradesCached_def)

lemma trades_miss:
  "cache_trades st sy = None \<or> (\<exists>c. cache_trades st sy = Some c \<and> TRADES_TTL \<le> now - c_ts c) \<Longrightarrow>
   getTradesCached st sy now (Inr v) t =
     (Inr v, st\<lparr>cache_trades := (cache_trades st)(sy \<mapsto> \<lparr>c_data = v, c_ts = t\<rparr>),
               fetched := fetched st @ [MyTradesRequest sy]\<rparr>)"
  by (auto simp add: getTradesCached_def split: option.splits)

lemma trades_miss_failed:
  "cache_trades st sy = None \<or> (\<exists>c. cache_trades st sy = Some c \<and> TRADES_TTL \<le> now - c_ts c) \<Longrightarrow>
   getTradesCached st sy now (Inl err) t = (Inl err, st\<lparr>fetched := fetched st @ [MyTradesRequest sy]\<rparr>)"
  by (auto simp add: getTradesCached_def split: option.splits)

lemma trades_miss_fetched:
  "cache_trades st sy = None \<or> (\<exists>c. cache_trades st sy = Some c \<and> TRADES_TTL \<le> now - c_ts c) \<Longrightarrow>
   fetched (snd (getTradesCached st sy now resp t)) = fetched st @ [MyTradesRequest sy]"
  by (cases resp) (simp_all add: trades_miss trades_miss_failed)

subsection \<open>Last price of a symbol\<close>

lemma price_hit:
  "cache_prices st sy = Some cp \<Longrightarrow> now - c_ts cp < PRICE_TTL \<Longrightarrow>
   getPriceCached st sy now resp t = (Inr (c_data cp), st)"
  by (simp add: getPriceCached_def)

lemma price_miss:
  "cache_prices st sy = None \<or> (\<exists>c. cache_prices st sy = Some c \<and> PRICE_TTL \<le> now - c_ts c) \<Longrightarrow>
   getPriceCached st sy now (Inr v) t =
     (Inr v, st\<lparr>cache_prices := (cache_prices st)(sy \<mapsto> \<lparr>c_data = v, c_ts = t\<rparr>),
               fetched := fetched st @ [TickerPriceRequest sy]\<rparr>)"
  by (auto simp add: getPriceCached_def split: option.splits)

lemma price_miss_failed:
  "cache_prices st sy = None \<or> (\<exists>c. cache_prices st sy = Some c \<and> PRICE_TTL \<le> now - c_ts c) \<Longrightarrow>
   getPriceCached st sy now (Inl err) t = (Inl err, st\<lparr>fetched := fetched st @ [TickerPriceRequest sy]\<rparr>)"
  by (auto simp add: getPriceCached_def split: option.splits)

lemma price_miss_fetched:
  "cache_prices st sy = None \<or> (\<exists>c. cache_prices st sy = Some c \<and> PRICE_TTL \<le> now - c_ts c) \<Longrightarrow>
   fetched (snd (getPriceCached st sy now resp t)) = fetched st @ [TickerPriceRequest sy]"
  by (cases resp) (simp_all add: price_miss price_miss_failed)

subsection \<open>Exchange information\<close>

lemma info_hit:
  "c_data (exchangeInfoCache st) = Some i \<Longrightarrow> now - c_ts (exchangeInfoCache st) < EXCHANGE_INFO_TTL \<Longrightarrow>
   getExchangeInfo st now resp t = (Inr (Some i), st)"
  by (simp add: getExchangeInfo_def)

lemma info_miss:
  "c_data (exchangeInfoCache st) = None \<or> EXCHANGE_INFO_TTL \<le> now - c_ts (exchangeInfoCache st) \<Longrightarrow>
   getExchangeInfo st now (Inr v) t =
     (Inr v, st\<lparr>exchangeInfoCache := \<lparr>c_data = v, c_ts = t\<rparr>,
               fetched := fetched st @ [ExchangeInfoRequest]\<rparr>)"
  by (auto simp add: getExchangeInfo_def split: option.splits)

lemma info_miss_failed:
  "c_data (exchangeInfoCache st) = None \<or> EXCHANGE_INFO_TTL \<le> now - c_ts (exchangeInfoCache st) \<Longrightarrow>
   getExchangeInfo st now (Inl err) t = (Inl err, st\<lparr>fetched := fetched st @ [ExchangeInfoRequest]\<rparr>)"
  by (auto simp add: getExchangeInfo_def split: option.splits)

lemma info_miss_fetched:
  "c_data (exchangeInfoCache st) = None \<or> EXCHANGE_INFO_TTL \<le> now - c_ts (exchangeInfoCache st) \<Longrightarrow>
   fetched (snd (getExchangeInfo st now resp t)) = fetched st @ [ExchangeInfoRequest]"
  by (cases resp) (simp_all add: info_miss info_miss_failed)

text \<open>A payload that counts as false is stored and never found: every read sends the request.\<close>

lemma info_false_payload:
  "c_data (exchangeInfoCache st) = None \<Longrightarrow>
   fetched (snd (getExchangeInfo st now resp t)) = fetched st @ [ExchangeInfoRequest]"
  by (simp add: info_miss_fetched)

subsection \<open>The contract\<close>

text \<open>
  Claim C5. For each cached category (account snapshot, trades of a symbol, last price
  of a symbol, exchange information), with its own TTL: a read at time \<open>now\<close> that finds
  a stored value with \<open>now - fetchedAt < ttl\<close> returns that value and sends no request
  (the state, with its list of requests, is unchanged); any other read sends the
  request of the category and, when the fetcher returns a value, stores it with the
  clock reading taken at the store, \<open>t\<close>, and returns it; the state after that read is
  named in the statement. In particular, after such a read a second read of the same
  key at the time \<open>later\<close> with \<open>later - t < ttl\<close> returns the same value and leaves the
  state alone, so that exactly one request was sent for the two reads; and a second
  read with \<open>later - t \<ge> ttl\<close> sends the request again.
\<close>

theorem cache_get_contract:
  fixes st :: "('acct, 'trades, 'info) state"
    and ra rb :: "'e + 'acct option" and rt rtb :: "'e + 'trades" and rp rpb :: "'e + jsnum"
    and ri rib :: "'e + 'info option"
  shows
  "(c_data (cache_account st) = Some a \<and> now - c_ts (cache_account st) < ACCOUNT_TTL \<longrightarrow>
     getAccountCached st now ra t = (Inr (Some a), st)) \<and>
   ((c_data (cache_account st) = None \<or> ACCOUNT_TTL \<le> now - c_ts (cache_account st)) \<and>
    sa = st\<lparr>cache_account := \<lparr>c_data = (Some a'), c_ts = t\<rparr>,
            fetched := fetched st @ [AccountRequest]\<rparr> \<longrightarrow>
      getAccountCached st now (Inr (Some a') :: 'e + 'acct option) t = (Inr (Some a'), sa) \<and>
      (later - t < ACCOUNT_TTL \<longrightarrow> getAccountCached sa later rb tb = (Inr (Some a'), sa)) \<and>
      (ACCOUNT_TTL \<le> later - t \<longrightarrow>
         fetched (snd (getAccountCached sa later rb tb)) =
           fetched st @ [AccountRequest, AccountRequest])) \<and>
   (cache_trades st sy = Some ct \<and> now - c_ts ct < TRADES_TTL \<longrightarrow>
     getTradesCached st sy now rt t = (Inr (c_data ct), st)) \<and>
   ((cache_trades st sy = None \<or> (\<exists>c. cache_trades st sy = Some c \<and> TRADES_TTL \<le> now - c_ts c)) \<and>
    sd = st\<lparr>cache_trades := (cache_trades st)(sy \<mapsto> \<lparr>c_data = d', c_ts = t\<rparr>),
            fetched := fetched st @ [MyTradesRequest sy]\<rparr> \<longrightarrow>
      getTradesCached st sy now (Inr d' :: 'e + 'trades) t = (Inr d', sd) \<and>
      (later - t < TRADES_TTL \<longrightarrow> getTradesCached sd sy later rtb tb = (Inr d', sd)) \<and>
      (TRADES_TTL \<le> later - t \<longrightarrow>
         fetched (snd (getTradesCached sd sy later rtb tb)) =
           fetched st @ [MyTradesRequest sy, MyTradesRequest sy])) \<and>
   (cache_prices st sy = Some cp \<and> now - c_ts cp < PRICE_TTL \<longrightarrow>
     getPriceCached st sy now rp t = (Inr (c_data cp), st)) \<and>
   ((cache_prices st sy = None \<or> (\<exists>c. cache_prices st sy = Some c \<and> PRICE_TTL \<le> now - c_ts c)) \<and>
    sp = st\<lparr>cache_prices := (cache_prices st)(sy \<mapsto> \<lparr>c_data = p', c_ts = t\<rparr>),
            fetched := fetched st @ [TickerPriceRequest sy]\<rparr> \<longrightarrow>
      getPriceCached st sy now (Inr p' :: 'e + jsnum) t = (Inr p', sp) \<and>
      (later - t < PRICE_TTL \<longrightarrow> getPriceCached sp sy later rpb tb = (Inr p', sp)) \<and>
      (PRICE_TTL \<le> later - t \<longrightarrow>
         fetched (snd (getPriceCached sp sy later rpb tb)) =
           fetched st @ [TickerPriceRequest sy, TickerPriceRequest sy])) \<and>
   (c_data (exchangeInfoCache st) = Some i \<and> now - c_ts (exchangeInfoCache st) < EXCHANGE_INFO_TTL \<longrightarrow>
     getExchangeInfo st now ri t = (Inr (Some i), st)) \<and>
   ((c_data (exchangeInfoCache st) = None \<or> EXCHANGE_INFO_TTL \<le> now - c_ts (exchangeInfoCache st)) \<and>
    si = st\<lparr>exchangeInfoCache := \<lparr>c_data = (Some i'), c_ts = t\<rparr>,
            fetched := fetched st @ [ExchangeInfoRequest]\<rparr> \<longrightarrow>
      getExchangeInfo st now (Inr (Some i') :: 'e + 'info option) t = (Inr (Some i'), si) \<and>
      (later - t < EXCHANGE_INFO_TTL \<longrightarrow> getExchangeInfo si later rib tb = (Inr (Some i'), si)) \<and>
      (EXCHANGE_INFO_TTL \<le> later - t \<longrightarrow>
         fetched (snd (getExchangeInfo si later rib tb)) =
           fetched st @ [ExchangeInfoRequest, ExchangeInfoRequest]))"
proof -
  have account_h: "c_data (cache_account st) = Some a \<and> now - c_ts (cache_account st) < ACCOUNT_TTL \<longrightarrow>
      getAccountCached st now ra t = (Inr (Some a), st)"
    by (simp add: account_hit)
  have account_m: "(c_data (cache_account st) = None \<or> ACCOUNT_TTL \<le> now - c_ts (cache_account st)) \<and>
    sa = st\<lparr>cache_account := \<lparr>c_data = (Some a'), c_ts = t\<rparr>,
            fetched := fetched st @ [AccountRequest]\<rparr> \<longrightarrow>
      getAccountCached st now (Inr (Some a') :: 'e + 'acct option) t = (Inr (Some a'), sa) \<and>
      (later - t < ACCOUNT_TTL \<longrightarrow> getAccountCached sa later rb tb = (Inr (Some a'), sa)) \<and>
      (ACCOUNT_TTL \<le> later - t \<longrightarrow>
         fetched (snd (getAccountCached sa later rb tb)) =
           fetched st @ [AccountRequest, AccountRequest])"
  proof (intro impI, elim conjE)
    assume m: "c_data (cache_account st) = None \<or> ACCOUNT_TTL \<le> now - c_ts (cache_account st)"
      and s: "sa = st\<lparr>cache_account := \<lparr>c_data = (Some a'), c_ts = t\<rparr>,
            fetched := fetched st @ [AccountRequest]\<rparr>"
    have r1: "getAccountCached st now (Inr (Some a') :: 'e + 'acct option) t = (Inr (Some a'), sa)"
      unfolding s using m by (rule account_miss)
    have r2: "getAccountCached sa later rb tb = (Inr (Some a'), sa)" if "later - t < ACCOUNT_TTL"
      using that account_hit [of sa _ later rb tb] by (simp add: s)
    have r3: "fetched (snd (getAccountCached sa later rb tb)) =
           fetched st @ [AccountRequest, AccountRequest]" if "ACCOUNT_TTL \<le> later - t"
      using that account_miss_fetched [of sa later rb tb] by (simp add: s)
    show "getAccountCached st now (Inr (Some a') :: 'e + 'acct option) t = (Inr (Some a'), sa) \<and>
      (later - t < ACCOUNT_TTL \<longrightarrow> getAccountCached sa later rb tb = (Inr (Some a'), sa)) \<and>
      (ACCOUNT_TTL \<le> later - t \<longrightarrow>
         fetched (snd (getAccountCached sa later rb tb)) =
           fetched st @ [AccountRequest, AccountRequest])"
      using r1 r2 r3 by blast
  qed
  have trades_h: "cache_trades st sy = Some ct \<and> now - c_ts ct < TRADES_TTL \<longrightarrow>
      getTradesCached st sy now rt t = (Inr (c_data ct), st)"
    by (simp add: trades_hit)
  have trades_m: "(cache_trades st sy = None \<or> (\<exists>c. cache_trades st sy = Some c \<and> TRADES_TTL \<le> now - c_ts c)) \<and>
    sd = st\<lparr>cache_trades := (cache_trades st)(sy \<mapsto> \<lparr>c_data = d', c_ts = t\<rparr>),
            fetched := fetched st @ [MyTradesRequest sy]\<rparr> \<longrightarrow>
      getTradesCached st sy now (Inr d' :: 'e + 'trades) t = (Inr d', sd) \<and>
      (later - t < TRADES_TTL \<longrightarrow> getTradesCached sd sy later rtb tb = (Inr d', sd)) \<and>
      (TRADES_TTL \<le> later - t \<longrightarrow>
         fetched (snd (getTradesCached sd sy later rtb tb)) =
           fetched st @ [MyTradesRequest sy, MyTradesRequest sy])"
  proof (intro impI, elim conjE)
    assume m: "cache_trades st sy = None \<or> (\<exists>c. cache_trades st sy = Some c \<and> TRADES_TTL \<le> now - c_ts c)"
      and s: "sd = st\<lparr>cache_trades := (cache_trades st)(sy \<mapsto> \<lparr>c_data = d', c_ts = t\<rparr>),
            fetched := fetched st @ [MyTradesRequest sy]\<rparr>"
    have r1: "getTradesCached st sy now (Inr d' :: 'e + 'trades) t = (Inr d', sd)"
      unfolding s using m by (rule trades_miss)
    have r2: "getTradesCached sd sy later rtb tb = (Inr d', sd)" if "later - t < TRADES_TTL"
      using that trades_hit [of sd sy _ later rtb tb] by (simp add: s)
    have r3: "fetched (snd (getTradesCached sd sy later rtb tb)) =
           fetched st @ [MyTradesRequest sy, MyTradesRequest sy]" if "TRADES_TTL \<le> later - t"
      using that trades_miss_fetched [of sd sy later rtb tb] by (simp add: s)
    show "getTradesCached st sy now (Inr d' :: 'e + 'trades) t = (Inr d', sd) \<and>
      (later - t < TRADES_TTL \<longrightarrow> getTradesCached sd sy later rtb tb = (Inr d', sd)) \<and>
      (TRADES_TTL \<le> later - t \<longrightarrow>
         fetched (snd (getTradesCached sd sy later rtb tb)) =
           fetched st @ [MyTradesRequest sy, MyTradesRequest sy])"
      using r1 r2 r3 by blast
  qed
  have price_h: "cache_prices st sy = Some cp \<and> now - c_ts cp < PRICE_TTL \<longrightarrow>
      getPriceCached st sy now rp t = (Inr (c_data cp), st)"
    by (simp add: price_hit)
  have price_m: "(cache_prices st sy = None \<or> (\<exists>c. cache_prices st sy = Some c \<and> PRICE_TTL \<le> now - c_ts c)) \<and>
    sp = st\<lparr>cache_prices := (cache_prices st)(sy \<mapsto> \<lparr>c_data = p', c_ts = t\<rparr>),
            fetched := fetched st @ [TickerPriceRequest sy]\<rparr> \<longrightarrow>
      getPriceCached st sy now (Inr p' :: 'e + jsnum) t = (Inr p', sp) \<and>
      (later - t < PRICE_TTL \<longrightarrow> getPriceCached sp sy later rpb tb = (Inr p', sp)) \<and>
      (PRICE_TTL \<le> later - t \<longrightarrow>
         fetched (snd (getPriceCached sp sy later rpb tb)) =
           fetched st @ [TickerPriceRequest sy, TickerPriceRequest sy])"
  proof (intro impI, elim conjE)
    assume m: "cache_prices st sy = None \<or> (\<exists>c. cache_prices st sy = Some c \<and> PRICE_TTL \<le> now - c_ts c)"
      and s: "sp = st\<lparr>cache_prices := (cache_prices st)(sy \<mapsto> \<lparr>c_data = p', c_ts = t\<rparr>),
            fetched := fetched st @ [TickerPriceRequest sy]\<rparr>"
    have r1: "getPriceCached st sy now (Inr p' :: 'e + jsnum) t = (Inr p', sp)"
      unfolding s using m by (rule price_miss)
    have r2: "getPriceCached sp sy later rpb tb = (Inr p', sp)" if "later - t < PRICE_TTL"
      using that price_hit [of sp sy _ later rpb tb] by (simp add: s)
    have r3: "fetched (snd (getPriceCached sp sy later rpb tb)) =
           fetched st @ [TickerPriceRequest sy, TickerPriceRequest sy]" if "PRICE_TTL \<le> later - t"
      using that price_miss_fetched [of sp sy later rpb tb] by (simp add: s)
    show "getPriceCached st sy now (Inr p' :: 'e + jsnum) t = (Inr p', sp) \<and>
      (later - t < PRICE_TTL \<longrightarrow> getPriceCached sp sy later rpb tb = (Inr p', sp)) \<and>
      (PRICE_TTL \<le> later - t \<longrightarrow>
         fetched (snd (getPriceCached sp sy later rpb tb)) =
           fetched st @ [TickerPriceRequest sy, TickerPriceRequest sy])"
      using r1 r2 r3 by blast
  qed
  have info_h: "c_data (exchangeInfoCache st) = Some i \<and> now - c_ts (exchangeInfoCache st) < EXCHANGE_INFO_TTL \<longrightarrow>
      getExchangeInfo st now ri t = (Inr (Some i), st)"
    by (simp add: info_hit)
  have info_m: "(c_data (exchangeInfoCache st) = None \<or> EXCHANGE_INFO_TTL \<le> now - c_ts (exchangeInfoCache st)) \<and>
    si = st\<lparr>exchangeInfoCache := \<lparr>c_data = (Some i'), c_ts = t\<rparr>,
            fetched := fetched st @ [ExchangeInfoRequest]\<rparr> \<longrightarrow>
      getExchangeInfo st now (Inr (Some i') :: 'e + 'info option) t = (Inr (Some i'), si) \<and>
      (later - t < EXCHANGE_INFO_TTL \<longrightarrow> getExchangeInfo si later rib tb = (Inr (Some i'), si)) \<and>
      (EXCHANGE_INFO_TTL \<le> later - t \<longrightarrow>
         fetched (snd (getExchangeInfo si later rib tb)) =
           fetched st @ [ExchangeInfoRequest, ExchangeInfoRequest])"
  proof (intro impI, elim conjE)
    assume m: "c_data (exchangeInfoCache st) = None \<or> EXCHANGE_INFO_TTL \<le> now - c_ts (exchangeInfoCache st)"
      and s: "si = st\<lparr>exchangeInfoCache := \<lparr>c_data = (Some i'), c_ts = t\<rparr>,
            fetched := fetched st @ [ExchangeInfoRequest]\<rparr>"
    have r1: "getExchangeInfo st now (Inr (Some i') :: 'e + 'info option) t = (Inr (Some i'), si)"
      unfolding s using m by (rule info_miss)
    have r2: "getExchangeInfo si later rib tb = (Inr (Some i'), si)" if "later - t < EXCHANGE_INFO_TTL"
      using that info_hit [of si _ later rib tb] by (simp add: s)
    have r3: "fetched (snd (getExchangeInfo si later rib tb)) =
           fetched st @ [ExchangeInfoRequest, ExchangeInfoRequest]" if "EXCHANGE_INFO_TTL \<le> later - t"
      using that info_miss_fetched [of si later rib tb] by (simp add: s)
    show "getExchangeInfo st now (Inr (Some i') :: 'e + 'info option) t = (Inr (Some i'), si) \<and>
      (later - t < EXCHANGE_INFO_TTL \<longrightarrow> getExchangeInfo si later rib tb = (Inr (Some i'), si)) \<and>
      (EXCHANGE_INFO_TTL \<le> later - t \<longrightarrow>
         fetched (snd (getExchangeInfo si later rib tb)) =
           fetched st @ [ExchangeInfoRequest, ExchangeInfoRequest])"
      using r1 r2 r3 by blast
  qed
  show ?thesis
    by (intro conjI account_h account_m trades_h trades_m price_h price_m info_h info_m)
qed

theorem cache_get_contract_witness:
  "getAccountCached (initial_state :: (string, nat list, string) state) 1000
      (Inr (Some ''acct'') :: string + string option) 1010 =
     (Inr (Some ''acct''), (initial_state :: (string, nat list, string) state)
         \<lparr>cache_account := \<lparr>c_data = Some ''acct'', c_ts = 1010\<rparr>, fetched := [AccountRequest]\<rparr>) \<and>
   getAccountCached
      ((initial_state :: (string, nat list, string) state)
         \<lparr>cache_account := \<lparr>c_data = Some ''acct'', c_ts = 1010\<rparr>, fetched := [AccountRequest]\<rparr>)
      6000 (Inl ''down'' :: string + string option) 6001 =
     (Inr (Some ''acct''), (initial_state :: (string, nat list, string) state)
         \<lparr>cache_account := \<lparr>c_data = Some ''acct'', c_ts = 1010\<rparr>, fetched := [AccountRequest]\<rparr>) \<and>
   fetched (snd (getAccountCached
      ((initial_state :: (string, nat list, string) state)
         \<lparr>cache_account := \<lparr>c_data = Some ''acct'', c_ts = 1010\<rparr>, fetched := [AccountRequest]\<rparr>)
      3601010 (Inl ''down'' :: string + string option) 3601011)) = [AccountRequest, AccountRequest] \<and>
   getTradesCached (initial_state :: (string, nat list, string) state) ''BTCUSDT'' 1000
      (Inr [1, 2] :: string + nat list) 1010 =
     (Inr [1, 2], (initial_state :: (string, nat list, string) state)
         \<lparr>cache_trades := [''BTCUSDT'' \<mapsto> \<lparr>c_data = [1, 2], c_ts = 1010\<rparr>],
          fetched := [MyTradesRequest ''BTCUSDT'']\<rparr>) \<and>
   getTradesCached
      ((initial_state :: (string, nat list, string) state)
         \<lparr>cache_trades := [''BTCUSDT'' \<mapsto> \<lparr>c_data = [1, 2], c_ts = 1010\<rparr>],
          fetched := [MyTradesRequest ''BTCUSDT'']\<rparr>) ''BTCUSDT''
      6000 (Inl ''down'' :: string + nat list) 6001 =
     (Inr [1, 2], (initial_state :: (string, nat list, string) state)
         \<lparr>cache_trades := [''BTCUSDT'' \<mapsto> \<lparr>c_data = [1, 2], c_ts = 1010\<rparr>],
          fetched := [MyTradesRequest ''BTCUSDT'']\<rparr>) \<and>
   fetched (snd (getTradesCached
      ((initial_state :: (string, nat list, string) state)
         \<lparr>cache_trades := [''BTCUSDT'' \<mapsto> \<lparr>c_data = [1, 2], c_ts = 1010\<rparr>],
          fetched := [MyTradesRequest ''BTCUSDT'']\<rparr>) ''BTCUSDT''
      3601010 (Inl ''down'' :: string + nat list) 3601011)) = [MyTradesRequest ''BTCUSDT'', MyTradesRequest ''BTCUSDT''] \<and>
   getPriceCached (initial_state :: (string, nat list, string) state) ''BTCUSDT'' 1000
      (Inr (Num 20) :: string + jsnum) 1010 =
     (Inr (Num 20), (initial_state :: (string, nat list, string) state)
         \<lparr>cache_prices := [''BTCUSDT'' \<mapsto> \<lparr>c_data = Num 20, c_ts = 1010\<rparr>],
          fetched := [TickerPriceRequest ''BTCUSDT'']\<rparr>) \<and>
   getPriceCached
      ((initial_state :: (string, nat list, string) state)
         \<lparr>cache_prices := [''BTCUSDT'' \<mapsto> \<lparr>c_data = Num 20, c_ts = 1010\<rparr>],
          fetched := [TickerPriceRequest ''BTCUSDT'']\<rparr>) ''BTCUSDT''
      6000 (Inl ''down'' :: string + jsnum) 6001 =
     (Inr (Num 20), (initial_state :: (string, nat list, string) state)
         \<lparr>cache_prices := [''BTCUSDT'' \<mapsto> \<lparr>c_data = Num 20, c_ts = 1010\<rparr>],
          fetched := [TickerPriceRequest ''BTCUSDT'']\<rparr>) \<and>
   fetched (snd (getPriceCached
      ((initial_state :: (string, nat list, string) state)
         \<lparr>cache_prices := [''BTCUSDT'' \<mapsto> \<lparr>c_data = Num 20, c_ts = 1010\<rparr>],
          fetched := [TickerPriceRequest ''BTCUSDT'']\<rparr>) ''BTCUSDT''
      3601010 (Inl ''down'' :: string + jsnum) 3601011)) = [TickerPriceRequest ''BTCUSDT'', TickerPriceRequest ''BTCUSDT''] \<and>
   getExchangeInfo (initial_state :: (string, nat list, string) state) 1000
      (Inr (Some ''info'') :: string + string option) 1010 =
     (Inr (Some ''info''), (initial_state :: (string, nat list, string) state)
         \<lparr>exchangeInfoCache := \<lparr>c_data = Some ''info'', c_ts = 1010\<rparr>, fetched := [ExchangeInfoRequest]\<rparr>) \<and>
   getExchangeInfo
      ((initial_state :: (string, nat list, string) state)
         \<lparr>exchangeInfoCache := \<lparr>c_data = Some ''info'', c_ts = 1010\<rparr>, fetched := [ExchangeInfoRequest]\<rparr>)
      6000 (Inl ''down'' :: string + string option) 6001 =
     (Inr (Some ''info''), (initial_state :: (string, nat list, string) state)
         \<lparr>exchangeInfoCache := \<lparr>c_data = Some ''info'', c_ts = 1010\<rparr>, fetched := [ExchangeInfoRequest]\<rparr>) \<and>
   fetched (snd (getExchangeInfo
      ((initial_state :: (string, nat list, string) state)
         \<lparr>exchangeInfoCache := \<lparr>c_data = Some ''info'', c_ts = 1010\<rparr>, fetched := [ExchangeInfoRequest]\<rparr>)
      3601010 (Inl ''down'' :: string + string option) 3601011)) = [ExchangeInfoRequest, ExchangeInfoRequest] \<and>
   getAccountCached
      ((initial_state :: (string, nat list, string) state)
        \<lparr>cache_account := \<lparr>c_data = Some ''acct'', c_ts = 1010\<rparr>,
         cache_trades := [''BTCUSDT'' \<mapsto> \<lparr>c_data = [1, 2], c_ts = 1020\<rparr>],
         cache_prices := [''BTCUSDT'' \<mapsto> \<lparr>c_data = Num 20, c_ts = 1030\<rparr>],
         exchangeInfoCache := \<lparr>c_data = Some ''info'', c_ts = 1040\<rparr>\<rparr>)
      2000 (Inl ''down'' :: string + string option) 2001 =
     (Inr (Some ''acct''),
      (initial_state :: (string, nat list, string) state)
        \<lparr>cache_account := \<lparr>c_data = Some ''acct'', c_ts = 1010\<rparr>,
         cache_trades := [''BTCUSDT'' \<mapsto> \<lparr>c_data = [1, 2], c_ts = 1020\<rparr>],
         cache_prices := [''BTCUSDT'' \<mapsto> \<lparr>c_data = Num 20, c_ts = 1030\<rparr>],
         exchangeInfoCache := \<lparr>c_data = Some ''info'', c_ts = 1040\<rparr>\<rparr>) \<and>
   getTradesCached
      ((initial_state :: (string, nat list, string) state)
        \<lparr>cache_account := \<lparr>c_data = Some ''acct'', c_ts = 1010\<rparr>,
         cache_trades := [''BTCUSDT'' \<mapsto> \<lparr>c_data = [1, 2], c_ts = 1020\<rparr>],
         cache_prices := [''BTCUSDT'' \<mapsto> \<lparr>c_data = Num 20, c_ts = 1030\<rparr>],
         exchangeInfoCache := \<lparr>c_data = Some ''info'', c_ts = 1040\<rparr>\<rparr>) ''BTCUSDT''
      2000 (Inl ''down'' :: string + nat list) 2001 =
     (Inr [1, 2],
      (initial_state :: (string, nat list, string) state)
        \<lparr>cache_account := \<lparr>c_data = Some ''acct'', c_ts = 1010\<rparr>,
         cache_trades := [''BTCUSDT'' \<mapsto> \<lparr>c_data = [1, 2], c_ts = 1020\<rparr>],
         cache_prices := [''BTCUSDT'' \<mapsto> \<lparr>c_data = Num 20, c_ts = 1030\<rparr>],
         exchangeInfoCache := \<lparr>c_data = Some ''info'', c_ts = 1040\<rparr>\<rparr>) \<and>
   getPriceCached
      ((initial_state :: (string, nat list, string) state)
        \<lparr>cache_account := \<lparr>c_data = Some ''acct'', c_ts = 1010\<rparr>,
         cache_trades := [''BTCUSDT'' \<mapsto> \<lparr>c_data = [1, 2], c_ts = 1020\<rparr>],
         cache_prices := [''BTCUSDT'' \<mapsto> \<lparr>c_data = Num 20, c_ts = 1030\<rparr>],
         exchangeInfoCache := \<lparr>c_data = Some ''info'', c_ts = 1040\<rparr>\<rparr>) ''BTCUSDT''
      2000 (Inl ''down'' :: string + jsnum) 2001 =
     (Inr (Num 20),
      (initial_state :: (string, nat list, string) state)
        \<lparr>cache_account := \<lparr>c_data = Some ''acct'', c_ts = 1010\<rparr>,
         cache_trades := [''BTCUSDT'' \<mapsto> \<lparr>c_data = [1, 2], c_ts = 1020\<rparr>],
         cache_prices := [''BTCUSDT'' \<mapsto> \<lparr>c_data = Num 20, c_ts = 1030\<rparr>],
         exchangeInfoCache := \<lparr>c_data = Some ''info'', c_ts = 1040\<rparr>\<rparr>) \<and>
   getExchangeInfo
      ((initial_state :: (string, nat list, string) state)
        \<lparr>cache_account := \<lparr>c_data = Some ''acct'', c_ts = 1010\<rparr>,
         cache_trades := [''BTCUSDT'' \<mapsto> \<lparr>c_data = [1, 2], c_ts = 1020\<rparr>],
         cache_prices := [''BTCUSDT'' \<mapsto> \<lparr>c_data = Num 20, c_ts = 1030\<rparr>],
         exchangeInfoCache := \<lparr>c_data = Some ''info'', c_ts = 1040\<rparr>\<rparr>)
      2000 (Inl ''down'' :: string + string option) 2001 =
     (Inr (Some ''info''),
      (initial_state :: (string, nat list, string) state)
        \<lparr>cache_account := \<lparr>c_data = Some ''acct'', c_ts = 1010\<rparr>,
         cache_trades := [''BTCUSDT'' \<mapsto> \<lparr>c_data = [1, 2], c_ts = 1020\<rparr>],
         cache_prices := [''BTCUSDT'' \<mapsto> \<lparr>c_data = Num 20, c_ts = 1030\<rparr>],
         exchangeInfoCache := \<lparr>c_data = Some ''info'', c_ts = 1040\<rparr>\<rparr>)"
proof -
  let ?s0 = "initial_state :: (string, nat list, string) state"
  note inst = cache_get_contract [where st = ?s0 and now = 1000 and t = 1010 and sy = "''BTCUSDT''"
      and a = "[]" and a' = "''acct''" and ra = "Inl ''down'' :: string + string option" and rb = "Inl ''down''"
      and ct = "\<lparr>c_data = [], c_ts = 0\<rparr>" and d' = "[1, 2]"
      and rt = "Inl ''down'' :: string + nat list" and rtb = "Inl ''down''"
      and cp = "\<lparr>c_data = NaN, c_ts = 0\<rparr>" and p' = "Num 20"
      and rp = "Inl ''down'' :: string + jsnum" and rpb = "Inl ''down''"
      and i = "[]" and i' = "''info''" and ri = "Inl ''down'' :: string + string option" and rib = "Inl ''down''"
      and sa = "?s0\<lparr>cache_account := \<lparr>c_data = Some ''acct'', c_ts = 1010\<rparr>, fetched := [AccountRequest]\<rparr>"
      and sd = "?s0\<lparr>cache_trades := [''BTCUSDT'' \<mapsto> \<lparr>c_data = [1, 2], c_ts = 1010\<rparr>],
                    fetched := [MyTradesRequest ''BTCUSDT'']\<rparr>"
      and sp = "?s0\<lparr>cache_prices := [''BTCUSDT'' \<mapsto> \<lparr>c_data = Num 20, c_ts = 1010\<rparr>],
                    fetched := [TickerPriceRequest ''BTCUSDT'']\<rparr>"
      and si = "?s0\<lparr>exchangeInfoCache := \<lparr>c_data = Some ''info'', c_ts = 1010\<rparr>,
                    fetched := [ExchangeInfoRequest]\<rparr>"]
  note i1 = inst [where later = 6000 and tb = 6001] and i2 = inst [where later = 3601010 and tb = 3601011]
  have ttl: "(6000::int) - 1010 < ACCOUNT_TTL" "(6000::int) - 1010 < TRADES_TTL"
    "(6000::int) - 1010 < PRICE_TTL" "(6000::int) - 1010 < EXCHANGE_INFO_TTL"
    "ACCOUNT_TTL \<le> 3601010 - 1010" "TRADES_TTL \<le> 3601010 - 1010"
    "PRICE_TTL \<le> 3601010 - 1010" "EXCHANGE_INFO_TTL \<le> 3601010 - 1010"
    by (simp_all add: ACCOUNT_TTL_def TRADES_TTL_def PRICE_TTL_def EXCHANGE_INFO_TTL_def)
  have init: "c_data (cache_account ?s0) = None" "cache_trades ?s0 ''BTCUSDT'' = None"
    "cache_prices ?s0 ''BTCUSDT'' = None" "c_data (exchangeInfoCache ?s0) = None"
    "fetched ?s0 = []" "cache_trades ?s0 = Map.empty" "cache_prices ?s0 = Map.empty"
    by (simp_all add: initial_state_def)
  note rw = ttl init simp_thms append_Nil HOL.refl
  note a1 = i1 [THEN conjunct2, THEN conjunct1, simplified rw]
    and d1 = i1 [THEN conjunct2, THEN conjunct2, THEN conjunct2, THEN conjunct1, simplified rw]
    and p1 = i1 [THEN conjunct2, THEN conjunct2, THEN conjunct2, THEN conjunct2, THEN conjunct2,
                 THEN conjunct1, simplified rw]
    and x1 = i1 [THEN conjunct2, THEN conjunct2, THEN conjunct2, THEN conjunct2, THEN conjunct2,
                 THEN conjunct2, THEN conjunct2, simplified rw]
    and a2 = i2 [THEN conjunct2, THEN conjunct1, simplified rw]
    and d2 = i2 [THEN conjunct2, THEN conjunct2, THEN conjunct2, THEN conjunct1, simplified rw]
    and p2 = i2 [THEN conjunct2, THEN conjunct2, THEN conjunct2, THEN conjunct2, THEN conjunct2,
                 THEN conjunct1, simplified rw]
    and x2 = i2 [THEN conjunct2, THEN conjunct2, THEN conjunct2, THEN conjunct2, THEN conjunct2,
                 THEN conjunct2, THEN conjunct2, simplified rw]
  let ?s1 = "?s0\<lparr>cache_account := \<lparr>c_data = Some ''acct'', c_ts = 1010\<rparr>,
         cache_trades := [''BTCUSDT'' \<mapsto> \<lparr>c_data = [1, 2], c_ts = 1020\<rparr>],
         cache_prices := [''BTCUSDT'' \<mapsto> \<lparr>c_data = Num 20, c_ts = 1030\<rparr>],
         exchangeInfoCache := \<lparr>c_data = Some ''info'', c_ts = 1040\<rparr>\<rparr>"
  note i3 = cache_get_contract [where st = ?s1 and now = 2000 and t = 2001 and sy = "''BTCUSDT''"
      and a = "''acct''" and ra = "Inl ''down'' :: string + string option"
      and ct = "\<lparr>c_data = [1, 2], c_ts = 1020\<rparr>" and rt = "Inl ''down'' :: string + nat list"
      and cp = "\<lparr>c_data = Num 20, c_ts = 1030\<rparr>" and rp = "Inl ''down'' :: string + jsnum"
      and i = "''info''" and ri = "Inl ''down'' :: string + string option"]
  have stored: "c_data (cache_account ?s1) = Some ''acct''" "c_ts (cache_account ?s1) = 1010"
    "cache_trades ?s1 ''BTCUSDT'' = Some \<lparr>c_data = [1, 2], c_ts = 1020\<rparr>"
    "cache_prices ?s1 ''BTCUSDT'' = Some \<lparr>c_data = Num 20, c_ts = 1030\<rparr>"
    "c_data (exchangeInfoCache ?s1) = Some ''info''" "c_ts (exchangeInfoCache ?s1) = 1040"
    "(2000::int) - 1010 < ACCOUNT_TTL" "(2000::int) - 1020 < TRADES_TTL"
    "(2000::int) - 1030 < PRICE_TTL" "(2000::int) - 1040 < EXCHANGE_INFO_TTL"
    by (simp_all add: ACCOUNT_TTL_def TRADES_TTL_def PRICE_TTL_def EXCHANGE_INFO_TTL_def)
  have a3: "getAccountCached ?s1 2000 (Inl ''down'' :: string + string option) 2001 = (Inr (Some ''acct''), ?s1)"
    using i3 [THEN conjunct1] stored by simp
  have d3: "getTradesCached ?s1 ''BTCUSDT'' 2000 (Inl ''down'' :: string + nat list) 2001 = (Inr [1, 2], ?s1)"
    using i3 [THEN conjunct2, THEN conjunct2, THEN conjunct1] stored by simp
  have p3: "getPriceCached ?s1 ''BTCUSDT'' 2000 (Inl ''down'' :: string + jsnum) 2001 = (Inr (Num 20), ?s1)"
    using i3 [THEN conjunct2, THEN conjunct2, THEN conjunct2, THEN conjunct2, THEN conjunct1] stored
    by simp
  have x3: "getExchangeInfo ?s1 2000 (Inl ''down'' :: string + string option) 2001 = (Inr (Some ''info''), ?s1)"
    using i3 [THEN conjunct2, THEN conjunct2, THEN conjunct2, THEN conjunct2, THEN conjunct2,
              THEN conjunct2, THEN conjunct1] stored
    by simp
  show ?thesis
    using a1 d1 p1 x1 a2 d2 p2 x2 a3 d3 p3 x3 by (intro conjI) (simp_all only: simp_thms)
qed

end
